theory Spec2Isabelle
  imports Main "HOL-Library.Word"
begin

section \<open>The JNI device shim of platform/java/jni/nativedevice.c\<close>

text \<open>
  The file holds the native halves of the Java class NativeDevice: lockNativeDevice,
  unlockNativeDevice, the finalizer and one function per drawing operation.  Every
  effect the C code has on its surroundings is written to a trace of events, in the
  order the code performs it; the world a function runs in is passed in and returned.
\<close>

subsection \<open>Values\<close>

text \<open>
  Native pointers are addresses, \<open>0\<close> being \<open>NULL\<close>, as in the \<open>jlong\<close> fields the
  Java objects keep them in.  \<open>jint\<close> and C \<open>int\<close> are 32-bit words; a \<open>jfloat\<close> is
  only handed on to the backend, so it is kept as its 32-bit pattern.
\<close>

type_synonym ptr = nat
type_synonym jint = "32 word"
type_synonym c_int = "32 word"
type_synonym jfloat = "32 word"

abbreviation NULL :: ptr where
  "NULL \<equiv> 0"

datatype jobject = JNull | JRef nat

datatype fz_matrix = Matrix jfloat jfloat jfloat jfloat jfloat jfloat

datatype fz_rect = Rect jfloat jfloat jfloat jfloat | fz_infinite_rect

type_synonym fz_color_params = nat

type_synonym fz_error = string

text \<open>
  A local \<open>const char *\<close>: never assigned (its value is indeterminate), the null
  pointer, or the characters it points to.
\<close>

datatype c_string = Indeterminate | NullStr | Chars string

text \<open>The struct of lines 8-30.  The two function pointers are code addresses.\<close>

record NativeDeviceInfo =
  lock :: ptr
  unlock :: ptr
  object :: jobject
  pixmap :: ptr
  xOffset :: c_int
  yOffset :: c_int
  width :: c_int
  height :: c_int

text \<open>
  One constructor per function of the rendering backend that the file calls, with
  the arguments in the order of the C call (the context, which every call gets,
  is left out).
\<close>

datatype fz_call =
    fz_close_device ptr
  | fz_fill_path ptr ptr bool fz_matrix ptr "jfloat list" jfloat fz_color_params
  | fz_stroke_path ptr ptr ptr fz_matrix ptr "jfloat list" jfloat fz_color_params
  | fz_clip_path ptr ptr bool fz_matrix fz_rect
  | fz_clip_stroke_path ptr ptr ptr fz_matrix fz_rect
  | fz_fill_text ptr ptr fz_matrix ptr "jfloat list" jfloat fz_color_params
  | fz_stroke_text ptr ptr ptr fz_matrix ptr "jfloat list" jfloat fz_color_params
  | fz_clip_text ptr ptr fz_matrix fz_rect
  | fz_clip_stroke_text ptr ptr ptr fz_matrix fz_rect
  | fz_ignore_text ptr ptr fz_matrix
  | fz_fill_shade ptr ptr fz_matrix jfloat fz_color_params
  | fz_fill_image ptr ptr fz_matrix jfloat fz_color_params
  | fz_fill_image_mask ptr ptr fz_matrix ptr "jfloat list" jfloat fz_color_params
  | fz_clip_image_mask ptr ptr fz_matrix fz_rect
  | fz_pop_clip ptr
  | fz_begin_layer ptr c_string
  | fz_end_layer ptr
  | fz_begin_mask ptr fz_rect bool ptr "jfloat list" fz_color_params
  | fz_end_mask ptr
  | fz_begin_group ptr fz_rect ptr bool bool jint jfloat
  | fz_end_group ptr
  | fz_begin_tile_id ptr fz_rect fz_rect jfloat jfloat fz_matrix jint
  | fz_end_tile ptr

text \<open>The errors of the host error channel (section 7 of the specification).\<close>

datatype host_error =
    InvalidArgument string
  | LockFailure
  | BackendFailure fz_error

datatype event =
    Ev_lock ptr
  | Ev_unlock ptr
  | Ev_backend fz_call
  | Ev_throw host_error
  | Ev_GetStringUTFChars jobject
  | Ev_ReleaseStringUTFChars jobject c_string
  | Ev_Device_finalize jobject
  | Ev_fz_drop_pixmap ptr
  | Ev_fz_free ptr

subsection \<open>The surroundings\<close>

text \<open>
  What nativedevice.c uses and does not define is a parameter: the context, the
  pointer fields of the Java resource objects, the value conversions, the channel
  count of a colour space, the constant \<open>FZ_MAX_COLORS\<close>, the JNI calls, the code
  behind a lock function pointer (its return value for the object it locks) and
  the backend (for each call: the error it throws, or the value it returns).
\<close>

record jni_env =
  get_context :: ptr
  Device_pointer :: "nat \<Rightarrow> ptr"
  Path_pointer :: "nat \<Rightarrow> ptr"
  StrokeState_pointer :: "nat \<Rightarrow> ptr"
  Text_pointer :: "nat \<Rightarrow> ptr"
  Shade_pointer :: "nat \<Rightarrow> ptr"
  Image_pointer :: "nat \<Rightarrow> ptr"
  ColorSpace_pointer :: "nat \<Rightarrow> ptr"
  from_Matrix :: "jobject \<Rightarrow> fz_matrix"
  from_Rect :: "jobject \<Rightarrow> fz_rect"
  from_ColorParams_safe :: "jint \<Rightarrow> fz_color_params"
  fz_colorspace_n :: "ptr \<Rightarrow> nat"
  FZ_MAX_COLORS :: nat
  IsInstanceOf_NativeDevice :: "jobject \<Rightarrow> bool"
  GetObjectField_nativeResource :: "jobject \<Rightarrow> jobject"
  GetStringUTFChars :: "jobject \<Rightarrow> string option"
  lock_fn :: "ptr \<Rightarrow> jobject \<Rightarrow> c_int"
  backend :: "fz_call \<Rightarrow> fz_error + c_int"

text \<open>
  The world: the native heap of handle structs, the \<open>nativeInfo\<close> field of each
  Java object (a \<open>jlong\<close> holding an address) and the trace.
\<close>

record world =
  heap :: "ptr \<Rightarrow> NativeDeviceInfo"
  nativeInfo :: "jobject \<Rightarrow> ptr"
  trace :: "event list"

definition emit :: "event \<Rightarrow> world \<Rightarrow> world" where
  "emit e w = w\<lparr>trace := trace w @ [e]\<rparr>"

text \<open>The events a run from \<open>w\<close> to \<open>w'\<close> has added.\<close>

definition emitted :: "world \<Rightarrow> world \<Rightarrow> event list" where
  "emitted w w' = drop (length (trace w)) (trace w')"

subsection \<open>Helpers the file calls\<close>

text \<open>
  Modelled from the spec: the conversions from_Device, from_Path, from_StrokeState,
  from_Text, from_Shade, from_Image and from_ColorSpace are not defined in
  nativedevice.c.  Section 6: "given an opaque reference, return the corresponding
  native Path / Text / StrokeState / ColorSpace / Shading / Image [...], or a
  not-available sentinel if the reference is stale/invalid".  A null reference
  gives \<open>NULL\<close>; any other reference gives the pointer the object holds.
\<close>

definition from_pointer :: "(nat \<Rightarrow> ptr) \<Rightarrow> jobject \<Rightarrow> ptr" where
  "from_pointer field jobj = (case jobj of JNull \<Rightarrow> NULL | JRef r \<Rightarrow> field r)"

definition from_Device :: "jni_env \<Rightarrow> jobject \<Rightarrow> ptr" where
  "from_Device env = from_pointer (Device_pointer env)"

definition from_Path :: "jni_env \<Rightarrow> jobject \<Rightarrow> ptr" where
  "from_Path env = from_pointer (Path_pointer env)"

definition from_StrokeState :: "jni_env \<Rightarrow> jobject \<Rightarrow> ptr" where
  "from_StrokeState env = from_pointer (StrokeState_pointer env)"

definition from_Text :: "jni_env \<Rightarrow> jobject \<Rightarrow> ptr" where
  "from_Text env = from_pointer (Text_pointer env)"

definition from_Shade :: "jni_env \<Rightarrow> jobject \<Rightarrow> ptr" where
  "from_Shade env = from_pointer (Shade_pointer env)"

definition from_Image :: "jni_env \<Rightarrow> jobject \<Rightarrow> ptr" where
  "from_Image env = from_pointer (Image_pointer env)"

definition from_ColorSpace :: "jni_env \<Rightarrow> jobject \<Rightarrow> ptr" where
  "from_ColorSpace env = from_pointer (ColorSpace_pointer env)"

text \<open>
  Modelled from the spec: jni_throw_arg is not defined in nativedevice.c.
  Section 4.1, step 1: a missing required argument "signals an InvalidArgument
  error identifying the missing parameter"; the message is the one the caller
  passes.
\<close>

definition jni_throw_arg :: "string \<Rightarrow> world \<Rightarrow> world" where
  "jni_throw_arg msg w = emit (Ev_throw (InvalidArgument msg)) w"

text \<open>
  Modelled from the spec: jni_rethrow is not defined in nativedevice.c.
  Section 4.1, step 6: "if the backend failed, translate its error into the host
  error domain and surface it to the caller".
\<close>

definition jni_rethrow :: "fz_error \<Rightarrow> world \<Rightarrow> world" where
  "jni_rethrow e w = emit (Ev_throw (BackendFailure e)) w"

text \<open>
  Modelled from the spec: from_jfloatArray is not defined in nativedevice.c.
  Section 4.1, step 2: "for color arrays, validate the array length matches the
  expected channel count [...] and signal InvalidArgument on mismatch".  The
  result is the filled colour buffer, or \<open>None\<close> where the C function returns 0.
  The array is given by its contents.
\<close>

definition from_jfloatArray :: "nat \<Rightarrow> jfloat list \<Rightarrow> world \<Rightarrow> jfloat list option \<times> world" where
  "from_jfloatArray n jcolor w =
     (if length jcolor = n then (Some jcolor, w)
      else (None, emit (Ev_throw (InvalidArgument ''color array length does not match'')) w))"

text \<open>
  Modelled from the spec: the functions behind \<open>info->lock\<close> and \<open>info->unlock\<close>
  are supplied by the concrete device and are not in nativedevice.c.  Section 6:
  "lock(context) -> success|failure, unlock(context) -> void"; section 4.1,
  step 3: "Locking may itself fail (signals LockFailure)".  The return value is
  the environment's; a non-zero value is the failure.
\<close>

definition call_lock :: "jni_env \<Rightarrow> ptr \<Rightarrow> world \<Rightarrow> c_int \<times> world" where
  "call_lock env info w =
     (let rc = lock_fn env (lock (heap w info)) (object (heap w info));
          w1 = emit (Ev_lock info) w
      in (rc, if rc \<noteq> 0 then emit (Ev_throw LockFailure) w1 else w1))"

definition call_unlock :: "jni_env \<Rightarrow> ptr \<Rightarrow> world \<Rightarrow> world" where
  "call_unlock env info w = emit (Ev_unlock info) w"

text \<open>
  Modelled from the spec: fz_try, fz_always and fz_catch are macros of the
  backend's headers.  Section 4.1, step 5: the release "must execute even when
  the backend raises an error, via an unwind-safe scoped-release pattern".  The
  body runs, then the always block on either exit; the result says whether the
  catch block is entered.
\<close>

definition fz_try_always ::
  "(world \<Rightarrow> (fz_error + 'a) \<times> world) \<Rightarrow> (world \<Rightarrow> world) \<Rightarrow> world \<Rightarrow> (fz_error + 'a) \<times> world" where
  "fz_try_always body always w = (case body w of (r, w1) \<Rightarrow> (r, always w1))"

text \<open>A call of a backend function: it is recorded, and the environment decides its outcome.\<close>

definition call_backend :: "jni_env \<Rightarrow> fz_call \<Rightarrow> world \<Rightarrow> (fz_error + c_int) \<times> world" where
  "call_backend env c w = (backend env c, emit (Ev_backend c) w)"

text \<open>
  Modelled from the spec: Device_finalize, the finalizer of the superclass, is not
  in nativedevice.c.  Section 4.3: the finalizer runs "after delegating to the
  superclass lifecycle step".  The step is recorded; the field \<open>nativeInfo\<close>
  belongs to the subclass and is left as it is.
\<close>

definition Device_finalize :: "jni_env \<Rightarrow> jobject \<Rightarrow> world \<Rightarrow> world" where
  "Device_finalize env self w = emit (Ev_Device_finalize self) w"

definition fz_drop_pixmap :: "ptr \<Rightarrow> world \<Rightarrow> world" where
  "fz_drop_pixmap p w = emit (Ev_fz_drop_pixmap p) w"

definition fz_free :: "ptr \<Rightarrow> world \<Rightarrow> world" where
  "fz_free p w = emit (Ev_fz_free p) w"

subsection \<open>lockNativeDevice and unlockNativeDevice (lines 32-61)\<close>

text \<open>The result is the pair of the returned pointer and \<open>*err\<close>.\<close>

definition lockNativeDevice :: "jni_env \<Rightarrow> jobject \<Rightarrow> world \<Rightarrow> (ptr \<times> c_int) \<times> world" where
  "lockNativeDevice env self w =
     (if \<not> IsInstanceOf_NativeDevice env self then ((NULL, 0), w)
      else
        let info = nativeInfo w self in
        if info = NULL then ((NULL, 0), w)
        else
          let w1 = w\<lparr>heap := (heap w)(info := (heap w info)\<lparr>object := GetObjectField_nativeResource env self\<rparr>)\<rparr>
          in case call_lock env info w1 of
               (rc, w2) \<Rightarrow> if rc \<noteq> 0 then ((NULL, 1), w2) else ((info, 0), w2))"

definition unlockNativeDevice :: "jni_env \<Rightarrow> ptr \<Rightarrow> world \<Rightarrow> world" where
  "unlockNativeDevice env info w = (if info \<noteq> NULL then call_unlock env info w else w)"

subsection \<open>The finalizer (lines 63-79)\<close>

definition NativeDevice_finalize :: "jni_env \<Rightarrow> jobject \<Rightarrow> world \<Rightarrow> world" where
  "NativeDevice_finalize env self w =
     (let ctx = get_context env in
      if ctx = NULL then w
      else
        let w1 = Device_finalize env self w;
            ninfo = nativeInfo w1 self
        in if ninfo \<noteq> NULL
           then fz_free ninfo (fz_drop_pixmap (pixmap (heap w1 ninfo)) w1)
           else w1)"

subsection \<open>The drawing operations (lines 81-653)\<close>

text \<open>
  Each definition follows its C function line by line: the local initialisers, the
  check for a stale device, the checks of the arguments, lockNativeDevice, the
  backend call under fz_try, the fz_always block, and jni_rethrow in the fz_catch
  block.
\<close>

definition call_GetStringUTFChars :: "jni_env \<Rightarrow> jobject \<Rightarrow> world \<Rightarrow> c_string \<times> world" where
  "call_GetStringUTFChars env jname w =
     ((case GetStringUTFChars env jname of None \<Rightarrow> NullStr | Some s \<Rightarrow> Chars s),
      emit (Ev_GetStringUTFChars jname) w)"

definition call_ReleaseStringUTFChars :: "jobject \<Rightarrow> c_string \<Rightarrow> world \<Rightarrow> world" where
  "call_ReleaseStringUTFChars jname name w = emit (Ev_ReleaseStringUTFChars jname name) w"

text \<open>NativeDevice_close, lines 81-100.\<close>

definition NativeDevice_close ::
  "jni_env \<Rightarrow> jobject \<Rightarrow> world \<Rightarrow> world" where
  "NativeDevice_close env self w =
     (let ctx = get_context env;
          dev = from_Device env self
      in if ctx = NULL \<or> dev = NULL then w
         else
           (case lockNativeDevice env self w of
              ((info, err), w1) \<Rightarrow>
                if err \<noteq> 0 then w1
                else (case fz_try_always (call_backend env (fz_close_device dev))
                                         (unlockNativeDevice env info) w1 of
                        (Inl e, w2) \<Rightarrow> jni_rethrow e w2
                      | (Inr _, w2) \<Rightarrow> w2)))"

text \<open>NativeDevice_fillPath, lines 101-127.\<close>

definition NativeDevice_fillPath ::
  "jni_env \<Rightarrow> jobject \<Rightarrow> jobject \<Rightarrow> bool \<Rightarrow> jobject \<Rightarrow> jobject \<Rightarrow> jfloat list \<Rightarrow> jfloat \<Rightarrow> jint \<Rightarrow> world \<Rightarrow> world" where
  "NativeDevice_fillPath env self jpath even_odd jctm jcs jcolor alpha jcp w =
     (let ctx = get_context env;
          dev = from_Device env self;
          path = from_Path env jpath;
          ctm = from_Matrix env jctm;
          cs = from_ColorSpace env jcs;
          cp = from_ColorParams_safe env jcp
      in if ctx = NULL \<or> dev = NULL then w
         else if path = NULL then jni_throw_arg ''path must not be null'' w
         else case from_jfloatArray (if cs \<noteq> NULL then fz_colorspace_n env cs else FZ_MAX_COLORS env) jcolor w of
           (None, w0) \<Rightarrow> w0
         | (Some color, w0) \<Rightarrow>
             (case lockNativeDevice env self w0 of
                ((info, err), w1) \<Rightarrow>
                  if err \<noteq> 0 then w1
                  else (case fz_try_always (call_backend env (fz_fill_path dev path even_odd ctm cs color alpha cp))
                                           (unlockNativeDevice env info) w1 of
                          (Inl e, w2) \<Rightarrow> jni_rethrow e w2
                        | (Inr _, w2) \<Rightarrow> w2)))"

text \<open>NativeDevice_strokePath, lines 129-157.\<close>

definition NativeDevice_strokePath ::
  "jni_env \<Rightarrow> jobject \<Rightarrow> jobject \<Rightarrow> jobject \<Rightarrow> jobject \<Rightarrow> jobject \<Rightarrow> jfloat list \<Rightarrow> jfloat \<Rightarrow> jint \<Rightarrow> world \<Rightarrow> world" where
  "NativeDevice_strokePath env self jpath jstroke jctm jcs jcolor alpha jcp w =
     (let ctx = get_context env;
          dev = from_Device env self;
          path = from_Path env jpath;
          stroke = from_StrokeState env jstroke;
          ctm = from_Matrix env jctm;
          cs = from_ColorSpace env jcs;
          cp = from_ColorParams_safe env jcp
      in if ctx = NULL \<or> dev = NULL then w
         else if path = NULL then jni_throw_arg ''path must not be null'' w
         else if stroke = NULL then jni_throw_arg ''stroke must not be null'' w
         else case from_jfloatArray (if cs \<noteq> NULL then fz_colorspace_n env cs else FZ_MAX_COLORS env) jcolor w of
           (None, w0) \<Rightarrow> w0
         | (Some color, w0) \<Rightarrow>
             (case lockNativeDevice env self w0 of
                ((info, err), w1) \<Rightarrow>
                  if err \<noteq> 0 then w1
                  else (case fz_try_always (call_backend env (fz_stroke_path dev path stroke ctm cs color alpha cp))
                                           (unlockNativeDevice env info) w1 of
                          (Inl e, w2) \<Rightarrow> jni_rethrow e w2
                        | (Inr _, w2) \<Rightarrow> w2)))"

text \<open>NativeDevice_clipPath, lines 159-181.\<close>

definition NativeDevice_clipPath ::
  "jni_env \<Rightarrow> jobject \<Rightarrow> jobject \<Rightarrow> bool \<Rightarrow> jobject \<Rightarrow> world \<Rightarrow> world" where
  "NativeDevice_clipPath env self jpath even_odd jctm w =
     (let ctx = get_context env;
          dev = from_Device env self;
          path = from_Path env jpath;
          ctm = from_Matrix env jctm
      in if ctx = NULL \<or> dev = NULL then w
         else if path = NULL then jni_throw_arg ''path must not be null'' w
         else
           (case lockNativeDevice env self w of
              ((info, err), w1) \<Rightarrow>
                if err \<noteq> 0 then w1
                else (case fz_try_always (call_backend env (fz_clip_path dev path even_odd ctm fz_infinite_rect))
                                         (unlockNativeDevice env info) w1 of
                        (Inl e, w2) \<Rightarrow> jni_rethrow e w2
                      | (Inr _, w2) \<Rightarrow> w2)))"

text \<open>NativeDevice_clipStrokePath, lines 183-207.\<close>

definition NativeDevice_clipStrokePath ::
  "jni_env \<Rightarrow> jobject \<Rightarrow> jobject \<Rightarrow> jobject \<Rightarrow> jobject \<Rightarrow> world \<Rightarrow> world" where
  "NativeDevice_clipStrokePath env self jpath jstroke jctm w =
     (let ctx = get_context env;
          dev = from_Device env self;
          path = from_Path env jpath;
          stroke = from_StrokeState env jstroke;
          ctm = from_Matrix env jctm
      in if ctx = NULL \<or> dev = NULL then w
         else if path = NULL then jni_throw_arg ''path must not be null'' w
         else if stroke = NULL then jni_throw_arg ''stroke must not be null'' w
         else
           (case lockNativeDevice env self w of
              ((info, err), w1) \<Rightarrow>
                if err \<noteq> 0 then w1
                else (case fz_try_always (call_backend env (fz_clip_stroke_path dev path stroke ctm fz_infinite_rect))
                                         (unlockNativeDevice env info) w1 of
                        (Inl e, w2) \<Rightarrow> jni_rethrow e w2
                      | (Inr _, w2) \<Rightarrow> w2)))"

text \<open>NativeDevice_fillText, lines 209-235.\<close>

definition NativeDevice_fillText ::
  "jni_env \<Rightarrow> jobject \<Rightarrow> jobject \<Rightarrow> jobject \<Rightarrow> jobject \<Rightarrow> jfloat list \<Rightarrow> jfloat \<Rightarrow> jint \<Rightarrow> world \<Rightarrow> world" where
  "NativeDevice_fillText env self jtext jctm jcs jcolor alpha jcp w =
     (let ctx = get_context env;
          dev = from_Device env self;
          text = from_Text env jtext;
          ctm = from_Matrix env jctm;
          cs = from_ColorSpace env jcs;
          cp = from_ColorParams_safe env jcp
      in if ctx = NULL \<or> dev = NULL then w
         else if text = NULL then jni_throw_arg ''text must not be null'' w
         else case from_jfloatArray (if cs \<noteq> NULL then fz_colorspace_n env cs else FZ_MAX_COLORS env) jcolor w of
           (None, w0) \<Rightarrow> w0
         | (Some color, w0) \<Rightarrow>
             (case lockNativeDevice env self w0 of
                ((info, err), w1) \<Rightarrow>
                  if err \<noteq> 0 then w1
                  else (case fz_try_always (call_backend env (fz_fill_text dev text ctm cs color alpha cp))
                                           (unlockNativeDevice env info) w1 of
                          (Inl e, w2) \<Rightarrow> jni_rethrow e w2
                        | (Inr _, w2) \<Rightarrow> w2)))"

text \<open>NativeDevice_strokeText, lines 237-265.\<close>

definition NativeDevice_strokeText ::
  "jni_env \<Rightarrow> jobject \<Rightarrow> jobject \<Rightarrow> jobject \<Rightarrow> jobject \<Rightarrow> jobject \<Rightarrow> jfloat list \<Rightarrow> jfloat \<Rightarrow> jint \<Rightarrow> world \<Rightarrow> world" where
  "NativeDevice_strokeText env self jtext jstroke jctm jcs jcolor alpha jcp w =
     (let ctx = get_context env;
          dev = from_Device env self;
          text = from_Text env jtext;
          stroke = from_StrokeState env jstroke;
          ctm = from_Matrix env jctm;
          cs = from_ColorSpace env jcs;
          cp = from_ColorParams_safe env jcp
      in if ctx = NULL \<or> dev = NULL then w
         else if text = NULL then jni_throw_arg ''text must not be null'' w
         else if stroke = NULL then jni_throw_arg ''stroke must not be null'' w
         else case from_jfloatArray (if cs \<noteq> NULL then fz_colorspace_n env cs else FZ_MAX_COLORS env) jcolor w of
           (None, w0) \<Rightarrow> w0
         | (Some color, w0) \<Rightarrow>
             (case lockNativeDevice env self w0 of
                ((info, err), w1) \<Rightarrow>
                  if err \<noteq> 0 then w1
                  else (case fz_try_always (call_backend env (fz_stroke_text dev text stroke ctm cs color alpha cp))
                                           (unlockNativeDevice env info) w1 of
                          (Inl e, w2) \<Rightarrow> jni_rethrow e w2
                        | (Inr _, w2) \<Rightarrow> w2)))"

text \<open>NativeDevice_clipText, lines 267-289.\<close>

definition NativeDevice_clipText ::
  "jni_env \<Rightarrow> jobject \<Rightarrow> jobject \<Rightarrow> jobject \<Rightarrow> world \<Rightarrow> world" where
  "NativeDevice_clipText env self jtext jctm w =
     (let ctx = get_context env;
          dev = from_Device env self;
          text = from_Text env jtext;
          ctm = from_Matrix env jctm
      in if ctx = NULL \<or> dev = NULL then w
         else if text = NULL then jni_throw_arg ''text must not be null'' w
         else
           (case lockNativeDevice env self w of
              ((info, err), w1) \<Rightarrow>
                if err \<noteq> 0 then w1
                else (case fz_try_always (call_backend env (fz_clip_text dev text ctm fz_infinite_rect))
                                         (unlockNativeDevice env info) w1 of
                        (Inl e, w2) \<Rightarrow> jni_rethrow e w2
                      | (Inr _, w2) \<Rightarrow> w2)))"

text \<open>NativeDevice_clipStrokeText, lines 291-315.\<close>

definition NativeDevice_clipStrokeText ::
  "jni_env \<Rightarrow> jobject \<Rightarrow> jobject \<Rightarrow> jobject \<Rightarrow> jobject \<Rightarrow> world \<Rightarrow> world" where
  "NativeDevice_clipStrokeText env self jtext jstroke jctm w =
     (let ctx = get_context env;
          dev = from_Device env self;
          text = from_Text env jtext;
          stroke = from_StrokeState env jstroke;
          ctm = from_Matrix env jctm
      in if ctx = NULL \<or> dev = NULL then w
         else if text = NULL then jni_throw_arg ''text must not be null'' w
         else if stroke = NULL then jni_throw_arg ''stroke must not be null'' w
         else
           (case lockNativeDevice env self w of
              ((info, err), w1) \<Rightarrow>
                if err \<noteq> 0 then w1
                else (case fz_try_always (call_backend env (fz_clip_stroke_text dev text stroke ctm fz_infinite_rect))
                                         (unlockNativeDevice env info) w1 of
                        (Inl e, w2) \<Rightarrow> jni_rethrow e w2
                      | (Inr _, w2) \<Rightarrow> w2)))"

text \<open>NativeDevice_ignoreText, lines 317-339.\<close>

definition NativeDevice_ignoreText ::
  "jni_env \<Rightarrow> jobject \<Rightarrow> jobject \<Rightarrow> jobject \<Rightarrow> world \<Rightarrow> world" where
  "NativeDevice_ignoreText env self jtext jctm w =
     (let ctx = get_context env;
          dev = from_Device env self;
          text = from_Text env jtext;
          ctm = from_Matrix env jctm
      in if ctx = NULL \<or> dev = NULL then w
         else if text = NULL then jni_throw_arg ''text must not be null'' w
         else
           (case lockNativeDevice env self w of
              ((info, err), w1) \<Rightarrow>
                if err \<noteq> 0 then w1
                else (case fz_try_always (call_backend env (fz_ignore_text dev text ctm))
                                         (unlockNativeDevice env info) w1 of
                        (Inl e, w2) \<Rightarrow> jni_rethrow e w2
                      | (Inr _, w2) \<Rightarrow> w2)))"

text \<open>NativeDevice_fillShade, lines 341-364.\<close>

definition NativeDevice_fillShade ::
  "jni_env \<Rightarrow> jobject \<Rightarrow> jobject \<Rightarrow> jobject \<Rightarrow> jfloat \<Rightarrow> jint \<Rightarrow> world \<Rightarrow> world" where
  "NativeDevice_fillShade env self jshd jctm alpha jcp w =
     (let ctx = get_context env;
          dev = from_Device env self;
          shd = from_Shade env jshd;
          ctm = from_Matrix env jctm;
          cp = from_ColorParams_safe env jcp
      in if ctx = NULL \<or> dev = NULL then w
         else if shd = NULL then jni_throw_arg ''shade must not be null'' w
         else
           (case lockNativeDevice env self w of
              ((info, err), w1) \<Rightarrow>
                if err \<noteq> 0 then w1
                else (case fz_try_always (call_backend env (fz_fill_shade dev shd ctm alpha cp))
                                         (unlockNativeDevice env info) w1 of
                        (Inl e, w2) \<Rightarrow> jni_rethrow e w2
                      | (Inr _, w2) \<Rightarrow> w2)))"

text \<open>NativeDevice_fillImage, lines 366-389.\<close>

definition NativeDevice_fillImage ::
  "jni_env \<Rightarrow> jobject \<Rightarrow> jobject \<Rightarrow> jobject \<Rightarrow> jfloat \<Rightarrow> jint \<Rightarrow> world \<Rightarrow> world" where
  "NativeDevice_fillImage env self jimg jctm alpha jcp w =
     (let ctx = get_context env;
          dev = from_Device env self;
          img = from_Image env jimg;
          ctm = from_Matrix env jctm;
          cp = from_ColorParams_safe env jcp
      in if ctx = NULL \<or> dev = NULL then w
         else if img = NULL then jni_throw_arg ''image must not be null'' w
         else
           (case lockNativeDevice env self w of
              ((info, err), w1) \<Rightarrow>
                if err \<noteq> 0 then w1
                else (case fz_try_always (call_backend env (fz_fill_image dev img ctm alpha cp))
                                         (unlockNativeDevice env info) w1 of
                        (Inl e, w2) \<Rightarrow> jni_rethrow e w2
                      | (Inr _, w2) \<Rightarrow> w2)))"

text \<open>NativeDevice_fillImageMask, lines 391-417.\<close>

definition NativeDevice_fillImageMask ::
  "jni_env \<Rightarrow> jobject \<Rightarrow> jobject \<Rightarrow> jobject \<Rightarrow> jobject \<Rightarrow> jfloat list \<Rightarrow> jfloat \<Rightarrow> jint \<Rightarrow> world \<Rightarrow> world" where
  "NativeDevice_fillImageMask env self jimg jctm jcs jcolor alpha jcp w =
     (let ctx = get_context env;
          dev = from_Device env self;
          img = from_Image env jimg;
          ctm = from_Matrix env jctm;
          cs = from_ColorSpace env jcs;
          cp = from_ColorParams_safe env jcp
      in if ctx = NULL \<or> dev = NULL then w
         else if img = NULL then jni_throw_arg ''image must not be null'' w
         else case from_jfloatArray (if cs \<noteq> NULL then fz_colorspace_n env cs else FZ_MAX_COLORS env) jcolor w of
           (None, w0) \<Rightarrow> w0
         | (Some color, w0) \<Rightarrow>
             (case lockNativeDevice env self w0 of
                ((info, err), w1) \<Rightarrow>
                  if err \<noteq> 0 then w1
                  else (case fz_try_always (call_backend env (fz_fill_image_mask dev img ctm cs color alpha cp))
                                           (unlockNativeDevice env info) w1 of
                          (Inl e, w2) \<Rightarrow> jni_rethrow e w2
                        | (Inr _, w2) \<Rightarrow> w2)))"

text \<open>NativeDevice_clipImageMask, lines 419-441.\<close>

definition NativeDevice_clipImageMask ::
  "jni_env \<Rightarrow> jobject \<Rightarrow> jobject \<Rightarrow> jobject \<Rightarrow> world \<Rightarrow> world" where
  "NativeDevice_clipImageMask env self jimg jctm w =
     (let ctx = get_context env;
          dev = from_Device env self;
          img = from_Image env jimg;
          ctm = from_Matrix env jctm
      in if ctx = NULL \<or> dev = NULL then w
         else if img = NULL then jni_throw_arg ''image must not be null'' w
         else
           (case lockNativeDevice env self w of
              ((info, err), w1) \<Rightarrow>
                if err \<noteq> 0 then w1
                else (case fz_try_always (call_backend env (fz_clip_image_mask dev img ctm fz_infinite_rect))
                                         (unlockNativeDevice env info) w1 of
                        (Inl e, w2) \<Rightarrow> jni_rethrow e w2
                      | (Inr _, w2) \<Rightarrow> w2)))"

text \<open>NativeDevice_popClip, lines 443-462.\<close>

definition NativeDevice_popClip ::
  "jni_env \<Rightarrow> jobject \<Rightarrow> world \<Rightarrow> world" where
  "NativeDevice_popClip env self w =
     (let ctx = get_context env;
          dev = from_Device env self
      in if ctx = NULL \<or> dev = NULL then w
         else
           (case lockNativeDevice env self w of
              ((info, err), w1) \<Rightarrow>
                if err \<noteq> 0 then w1
                else (case fz_try_always (call_backend env (fz_pop_clip dev))
                                         (unlockNativeDevice env info) w1 of
                        (Inl e, w2) \<Rightarrow> jni_rethrow e w2
                      | (Inr _, w2) \<Rightarrow> w2)))"

text \<open>NativeDevice_beginLayer, lines 464-493.\<close>

definition NativeDevice_beginLayer ::
  "jni_env \<Rightarrow> jobject \<Rightarrow> jobject \<Rightarrow> world \<Rightarrow> world" where
  "NativeDevice_beginLayer env self jname w =
     (let ctx = get_context env;
          dev = from_Device env self;
          name = Indeterminate
      in if ctx = NULL \<or> dev = NULL then w
         else case (if jname \<noteq> JNull then call_GetStringUTFChars env jname w else (name, w)) of
           (name, w0) \<Rightarrow>
             if jname \<noteq> JNull \<and> name = NullStr then w0
             else (case lockNativeDevice env self w0 of
                     ((info, err), w1) \<Rightarrow>
                       if err \<noteq> 0 then w1
                       else (case fz_try_always (call_backend env (fz_begin_layer dev name))
                                                (\<lambda>w. unlockNativeDevice env info (call_ReleaseStringUTFChars jname name w)) w1 of
                               (Inl e, w2) \<Rightarrow> jni_rethrow e w2
                             | (Inr _, w2) \<Rightarrow> w2)))"

text \<open>NativeDevice_endLayer, lines 495-514.\<close>

definition NativeDevice_endLayer ::
  "jni_env \<Rightarrow> jobject \<Rightarrow> world \<Rightarrow> world" where
  "NativeDevice_endLayer env self w =
     (let ctx = get_context env;
          dev = from_Device env self
      in if ctx = NULL \<or> dev = NULL then w
         else
           (case lockNativeDevice env self w of
              ((info, err), w1) \<Rightarrow>
                if err \<noteq> 0 then w1
                else (case fz_try_always (call_backend env (fz_end_layer dev))
                                         (unlockNativeDevice env info) w1 of
                        (Inl e, w2) \<Rightarrow> jni_rethrow e w2
                      | (Inr _, w2) \<Rightarrow> w2)))"

text \<open>NativeDevice_beginMask, lines 516-540.\<close>

definition NativeDevice_beginMask ::
  "jni_env \<Rightarrow> jobject \<Rightarrow> jobject \<Rightarrow> bool \<Rightarrow> jobject \<Rightarrow> jfloat list \<Rightarrow> jint \<Rightarrow> world \<Rightarrow> world" where
  "NativeDevice_beginMask env self jrect luminosity jcs jcolor jcp w =
     (let ctx = get_context env;
          dev = from_Device env self;
          rect = from_Rect env jrect;
          cs = from_ColorSpace env jcs;
          cp = from_ColorParams_safe env jcp
      in if ctx = NULL \<or> dev = NULL then w
         else case from_jfloatArray (if cs \<noteq> NULL then fz_colorspace_n env cs else FZ_MAX_COLORS env) jcolor w of
           (None, w0) \<Rightarrow> w0
         | (Some color, w0) \<Rightarrow>
             (case lockNativeDevice env self w0 of
                ((info, err), w1) \<Rightarrow>
                  if err \<noteq> 0 then w1
                  else (case fz_try_always (call_backend env (fz_begin_mask dev rect luminosity cs color cp))
                                           (unlockNativeDevice env info) w1 of
                          (Inl e, w2) \<Rightarrow> jni_rethrow e w2
                        | (Inr _, w2) \<Rightarrow> w2)))"

text \<open>NativeDevice_endMask, lines 542-561.\<close>

definition NativeDevice_endMask ::
  "jni_env \<Rightarrow> jobject \<Rightarrow> world \<Rightarrow> world" where
  "NativeDevice_endMask env self w =
     (let ctx = get_context env;
          dev = from_Device env self
      in if ctx = NULL \<or> dev = NULL then w
         else
           (case lockNativeDevice env self w of
              ((info, err), w1) \<Rightarrow>
                if err \<noteq> 0 then w1
                else (case fz_try_always (call_backend env (fz_end_mask dev))
                                         (unlockNativeDevice env info) w1 of
                        (Inl e, w2) \<Rightarrow> jni_rethrow e w2
                      | (Inr _, w2) \<Rightarrow> w2)))"

text \<open>NativeDevice_beginGroup, lines 563-584.\<close>

definition NativeDevice_beginGroup ::
  "jni_env \<Rightarrow> jobject \<Rightarrow> jobject \<Rightarrow> jobject \<Rightarrow> bool \<Rightarrow> bool \<Rightarrow> jint \<Rightarrow> jfloat \<Rightarrow> world \<Rightarrow> world" where
  "NativeDevice_beginGroup env self jrect jcs isolated knockout blendmode alpha w =
     (let ctx = get_context env;
          dev = from_Device env self;
          rect = from_Rect env jrect;
          cs = from_ColorSpace env self
      in if ctx = NULL \<or> dev = NULL then w
         else
           (case lockNativeDevice env self w of
              ((info, err), w1) \<Rightarrow>
                if err \<noteq> 0 then w1
                else (case fz_try_always (call_backend env (fz_begin_group dev rect cs isolated knockout blendmode alpha))
                                         (unlockNativeDevice env info) w1 of
                        (Inl e, w2) \<Rightarrow> jni_rethrow e w2
                      | (Inr _, w2) \<Rightarrow> w2)))"

text \<open>NativeDevice_endGroup, lines 586-605.\<close>

definition NativeDevice_endGroup ::
  "jni_env \<Rightarrow> jobject \<Rightarrow> world \<Rightarrow> world" where
  "NativeDevice_endGroup env self w =
     (let ctx = get_context env;
          dev = from_Device env self
      in if ctx = NULL \<or> dev = NULL then w
         else
           (case lockNativeDevice env self w of
              ((info, err), w1) \<Rightarrow>
                if err \<noteq> 0 then w1
                else (case fz_try_always (call_backend env (fz_end_group dev))
                                         (unlockNativeDevice env info) w1 of
                        (Inl e, w2) \<Rightarrow> jni_rethrow e w2
                      | (Inr _, w2) \<Rightarrow> w2)))"

text \<open>NativeDevice_beginTile, lines 607-632.\<close>

definition NativeDevice_beginTile ::
  "jni_env \<Rightarrow> jobject \<Rightarrow> jobject \<Rightarrow> jobject \<Rightarrow> jfloat \<Rightarrow> jfloat \<Rightarrow> jobject \<Rightarrow> jint \<Rightarrow> world \<Rightarrow> jint \<times> world" where
  "NativeDevice_beginTile env self jarea jview xstep ystep jctm id' w =
     (let ctx = get_context env;
          dev = from_Device env self;
          area = from_Rect env jarea;
          view = from_Rect env jview;
          ctm = from_Matrix env jctm
      in if ctx = NULL \<or> dev = NULL then (0, w)
         else
           (case lockNativeDevice env self w of
              ((info, err), w1) \<Rightarrow>
                if err \<noteq> 0 then (0, w1)
                else (case fz_try_always (call_backend env (fz_begin_tile_id dev area view xstep ystep ctm id'))
                                         (unlockNativeDevice env info) w1 of
                        (Inl e, w2) \<Rightarrow> (0, jni_rethrow e w2)
                      | (Inr i, w2) \<Rightarrow> (i, w2))))"

text \<open>NativeDevice_endTile, lines 634-653.\<close>

definition NativeDevice_endTile ::
  "jni_env \<Rightarrow> jobject \<Rightarrow> world \<Rightarrow> world" where
  "NativeDevice_endTile env self w =
     (let ctx = get_context env;
          dev = from_Device env self
      in if ctx = NULL \<or> dev = NULL then w
         else
           (case lockNativeDevice env self w of
              ((info, err), w1) \<Rightarrow>
                if err \<noteq> 0 then w1
                else (case fz_try_always (call_backend env (fz_end_tile dev))
                                         (unlockNativeDevice env info) w1 of
                        (Inl e, w2) \<Rightarrow> jni_rethrow e w2
                      | (Inr _, w2) \<Rightarrow> w2)))"

subsection \<open>All operations at once\<close>

text \<open>
  A call of one of the drawing operations with its arguments, and the function that
  runs it.  The result is the returned \<open>jint\<close> for beginTile and \<open>None\<close> for the
  operations that return nothing.
\<close>

datatype device_op =
    Op_close
  | Op_fillPath jobject bool jobject jobject "jfloat list" jfloat jint
  | Op_strokePath jobject jobject jobject jobject "jfloat list" jfloat jint
  | Op_clipPath jobject bool jobject
  | Op_clipStrokePath jobject jobject jobject
  | Op_fillText jobject jobject jobject "jfloat list" jfloat jint
  | Op_strokeText jobject jobject jobject jobject "jfloat list" jfloat jint
  | Op_clipText jobject jobject
  | Op_clipStrokeText jobject jobject jobject
  | Op_ignoreText jobject jobject
  | Op_fillShade jobject jobject jfloat jint
  | Op_fillImage jobject jobject jfloat jint
  | Op_fillImageMask jobject jobject jobject "jfloat list" jfloat jint
  | Op_clipImageMask jobject jobject
  | Op_popClip
  | Op_beginLayer jobject
  | Op_endLayer
  | Op_beginMask jobject bool jobject "jfloat list" jint
  | Op_endMask
  | Op_beginGroup jobject jobject bool bool jint jfloat
  | Op_endGroup
  | Op_beginTile jobject jobject jfloat jfloat jobject jint
  | Op_endTile

fun dispatch :: "jni_env \<Rightarrow> jobject \<Rightarrow> device_op \<Rightarrow> world \<Rightarrow> jint option \<times> world" where
    "dispatch env self Op_close w = (None, NativeDevice_close env self w)"
  | "dispatch env self (Op_fillPath jpath even_odd jctm jcs jcolor alpha jcp) w = (None, NativeDevice_fillPath env self jpath even_odd jctm jcs jcolor alpha jcp w)"
  | "dispatch env self (Op_strokePath jpath jstroke jctm jcs jcolor alpha jcp) w = (None, NativeDevice_strokePath env self jpath jstroke jctm jcs jcolor alpha jcp w)"
  | "dispatch env self (Op_clipPath jpath even_odd jctm) w = (None, NativeDevice_clipPath env self jpath even_odd jctm w)"
  | "dispatch env self (Op_clipStrokePath jpath jstroke jctm) w = (None, NativeDevice_clipStrokePath env self jpath jstroke jctm w)"
  | "dispatch env self (Op_fillText jtext jctm jcs jcolor alpha jcp) w = (None, NativeDevice_fillText env self jtext jctm jcs jcolor alpha jcp w)"
  | "dispatch env self (Op_strokeText jtext jstroke jctm jcs jcolor alpha jcp) w = (None, NativeDevice_strokeText env self jtext jstroke jctm jcs jcolor alpha jcp w)"
  | "dispatch env self (Op_clipText jtext jctm) w = (None, NativeDevice_clipText env self jtext jctm w)"
  | "dispatch env self (Op_clipStrokeText jtext jstroke jctm) w = (None, NativeDevice_clipStrokeText env self jtext jstroke jctm w)"
  | "dispatch env self (Op_ignoreText jtext jctm) w = (None, NativeDevice_ignoreText env self jtext jctm w)"
  | "dispatch env self (Op_fillShade jshd jctm alpha jcp) w = (None, NativeDevice_fillShade env self jshd jctm alpha jcp w)"
  | "dispatch env self (Op_fillImage jimg jctm alpha jcp) w = (None, NativeDevice_fillImage env self jimg jctm alpha jcp w)"
  | "dispatch env self (Op_fillImageMask jimg jctm jcs jcolor alpha jcp) w = (None, NativeDevice_fillImageMask env self jimg jctm jcs jcolor alpha jcp w)"
  | "dispatch env self (Op_clipImageMask jimg jctm) w = (None, NativeDevice_clipImageMask env self jimg jctm w)"
  | "dispatch env self Op_popClip w = (None, NativeDevice_popClip env self w)"
  | "dispatch env self (Op_beginLayer jname) w = (None, NativeDevice_beginLayer env self jname w)"
  | "dispatch env self Op_endLayer w = (None, NativeDevice_endLayer env self w)"
  | "dispatch env self (Op_beginMask jrect luminosity jcs jcolor jcp) w = (None, NativeDevice_beginMask env self jrect luminosity jcs jcolor jcp w)"
  | "dispatch env self Op_endMask w = (None, NativeDevice_endMask env self w)"
  | "dispatch env self (Op_beginGroup jrect jcs isolated knockout blendmode alpha) w = (None, NativeDevice_beginGroup env self jrect jcs isolated knockout blendmode alpha w)"
  | "dispatch env self Op_endGroup w = (None, NativeDevice_endGroup env self w)"
  | "dispatch env self (Op_beginTile jarea jview xstep ystep jctm id') w =
     (case NativeDevice_beginTile env self jarea jview xstep ystep jctm id' w of (i, w') \<Rightarrow> (Some i, w'))"
  | "dispatch env self Op_endTile w = (None, NativeDevice_endTile env self w)"

subsection \<open>The protocol of section 4.1 as a trace\<close>

text \<open>
  The specification describes one protocol for every operation (section 4.1, steps
  3 to 6): lock if the device carries a handle, stop if the lock fails, call the
  backend, unlock if locked, surface the backend's error.  The definitions below
  write that protocol down as the events it produces, to compare the C functions
  with it.
\<close>

definition rethrown :: "jni_env \<Rightarrow> fz_call \<Rightarrow> event list" where
  "rethrown env fc = (case backend env fc of Inl e \<Rightarrow> [Ev_throw (BackendFailure e)] | Inr _ \<Rightarrow> [])"

definition has_handle :: "jni_env \<Rightarrow> jobject \<Rightarrow> world \<Rightarrow> bool" where
  "has_handle env self w \<longleftrightarrow> IsInstanceOf_NativeDevice env self \<and> nativeInfo w self \<noteq> NULL"

definition lock_rc :: "jni_env \<Rightarrow> jobject \<Rightarrow> world \<Rightarrow> c_int" where
  "lock_rc env self w =
     lock_fn env (lock (heap w (nativeInfo w self))) (GetObjectField_nativeResource env self)"

definition protocol_events :: "jni_env \<Rightarrow> jobject \<Rightarrow> world \<Rightarrow> fz_call \<Rightarrow> event list \<Rightarrow> event list" where
  "protocol_events env self w fc rel =
     (if has_handle env self w
      then (if lock_rc env self w = 0
            then [Ev_lock (nativeInfo w self), Ev_backend fc] @ rel @ [Ev_unlock (nativeInfo w self)] @ rethrown env fc
            else [Ev_lock (nativeInfo w self), Ev_throw LockFailure])
      else [Ev_backend fc] @ rel @ rethrown env fc)"

definition protocol_result :: "jni_env \<Rightarrow> jobject \<Rightarrow> world \<Rightarrow> fz_call \<Rightarrow> jint" where
  "protocol_result env self w fc =
     (if has_handle env self w \<and> lock_rc env self w \<noteq> 0 then 0
      else case backend env fc of Inl e \<Rightarrow> 0 | Inr v \<Rightarrow> v)"

definition after_protocol :: "jni_env \<Rightarrow> jobject \<Rightarrow> world \<Rightarrow> fz_call \<Rightarrow> event list \<Rightarrow> world" where
  "after_protocol env self w fc rel =
     w\<lparr>heap := (if has_handle env self w
                 then (heap w)(nativeInfo w self :=
                        (heap w (nativeInfo w self))\<lparr>object := GetObjectField_nativeResource env self\<rparr>)
                 else heap w),
       trace := trace w @ protocol_events env self w fc rel\<rparr>"

text \<open>
  What a run of an operation can look like: nothing happens, an argument is
  refused, the name of a layer cannot be read, or the protocol runs (after the
  name of a layer has been read, for beginLayer).
\<close>

definition shape :: "jni_env \<Rightarrow> jobject \<Rightarrow> world \<Rightarrow> jint option \<times> world \<Rightarrow> bool" where
  "shape env self w rw \<longleftrightarrow>
     nativeInfo (snd rw) = nativeInfo w \<and>
     (\<exists>evs. trace (snd rw) = trace w @ evs \<and>
       (evs = [] \<and> (fst rw = None \<or> fst rw = Some 0)
        \<or> (\<exists>m. evs = [Ev_throw (InvalidArgument m)])
        \<or> (\<exists>j. evs = [Ev_GetStringUTFChars j])
        \<or> (\<exists>pre fc rel.
              (pre = [] \<or> (\<exists>j. pre = [Ev_GetStringUTFChars j])) \<and>
              (rel = [] \<or> (\<exists>j n. rel = [Ev_ReleaseStringUTFChars j n])) \<and>
              evs = pre @ protocol_events env self w fc rel \<and>
              (fst rw = None \<or> fst rw = Some (protocol_result env self w fc)))))"

subsection \<open>The arguments the specification names\<close>

text \<open>
  The required resource arguments of each operation, as the specification lists
  them (section 4.1, step 1), each with the name its error message uses and the
  native pointer it resolves to, in the order the arguments are passed.
\<close>

fun required_args :: "jni_env \<Rightarrow> device_op \<Rightarrow> (string \<times> ptr) list" where
    "required_args env (Op_fillPath jpath even_odd jctm jcs jcolor alpha jcp) =
       [(''path'', from_Path env jpath)]"
  | "required_args env (Op_strokePath jpath jstroke jctm jcs jcolor alpha jcp) =
       [(''path'', from_Path env jpath), (''stroke'', from_StrokeState env jstroke)]"
  | "required_args env (Op_clipPath jpath even_odd jctm) =
       [(''path'', from_Path env jpath)]"
  | "required_args env (Op_clipStrokePath jpath jstroke jctm) =
       [(''path'', from_Path env jpath), (''stroke'', from_StrokeState env jstroke)]"
  | "required_args env (Op_fillText jtext jctm jcs jcolor alpha jcp) =
       [(''text'', from_Text env jtext)]"
  | "required_args env (Op_strokeText jtext jstroke jctm jcs jcolor alpha jcp) =
       [(''text'', from_Text env jtext), (''stroke'', from_StrokeState env jstroke)]"
  | "required_args env (Op_clipText jtext jctm) =
       [(''text'', from_Text env jtext)]"
  | "required_args env (Op_clipStrokeText jtext jstroke jctm) =
       [(''text'', from_Text env jtext), (''stroke'', from_StrokeState env jstroke)]"
  | "required_args env (Op_ignoreText jtext jctm) =
       [(''text'', from_Text env jtext)]"
  | "required_args env (Op_fillShade jshd jctm alpha jcp) =
       [(''shade'', from_Shade env jshd)]"
  | "required_args env (Op_fillImage jimg jctm alpha jcp) =
       [(''image'', from_Image env jimg)]"
  | "required_args env (Op_fillImageMask jimg jctm jcs jcolor alpha jcp) =
       [(''image'', from_Image env jimg)]"
  | "required_args env (Op_clipImageMask jimg jctm) =
       [(''image'', from_Image env jimg)]"
  | "required_args env Op_close = []"
  | "required_args env Op_popClip = []"
  | "required_args env (Op_beginLayer jname) = []"
  | "required_args env Op_endLayer = []"
  | "required_args env (Op_beginMask jrect luminosity jcs jcolor jcp) = []"
  | "required_args env Op_endMask = []"
  | "required_args env (Op_beginGroup jrect jcs isolated knockout blendmode alpha) = []"
  | "required_args env Op_endGroup = []"
  | "required_args env (Op_beginTile jarea jview xstep ystep jctm id') = []"
  | "required_args env Op_endTile = []"

text \<open>The colour space and colour array of the six operations that take a colour.\<close>

fun color_arg :: "device_op \<Rightarrow> (jobject \<times> jfloat list) option" where
    "color_arg (Op_fillPath jpath even_odd jctm jcs jcolor alpha jcp) = Some (jcs, jcolor)"
  | "color_arg (Op_strokePath jpath jstroke jctm jcs jcolor alpha jcp) = Some (jcs, jcolor)"
  | "color_arg (Op_fillText jtext jctm jcs jcolor alpha jcp) = Some (jcs, jcolor)"
  | "color_arg (Op_strokeText jtext jstroke jctm jcs jcolor alpha jcp) = Some (jcs, jcolor)"
  | "color_arg (Op_fillImageMask jimg jctm jcs jcolor alpha jcp) = Some (jcs, jcolor)"
  | "color_arg (Op_beginMask jrect luminosity jcs jcolor jcp) = Some (jcs, jcolor)"
  | "color_arg (Op_close) = None"
  | "color_arg (Op_clipPath jpath even_odd jctm) = None"
  | "color_arg (Op_clipStrokePath jpath jstroke jctm) = None"
  | "color_arg (Op_clipText jtext jctm) = None"
  | "color_arg (Op_clipStrokeText jtext jstroke jctm) = None"
  | "color_arg (Op_ignoreText jtext jctm) = None"
  | "color_arg (Op_fillShade jshd jctm alpha jcp) = None"
  | "color_arg (Op_fillImage jimg jctm alpha jcp) = None"
  | "color_arg (Op_clipImageMask jimg jctm) = None"
  | "color_arg Op_popClip = None"
  | "color_arg (Op_beginLayer jname) = None"
  | "color_arg Op_endLayer = None"
  | "color_arg Op_endMask = None"
  | "color_arg (Op_beginGroup jrect jcs isolated knockout blendmode alpha) = None"
  | "color_arg Op_endGroup = None"
  | "color_arg (Op_beginTile jarea jview xstep ystep jctm id') = None"
  | "color_arg Op_endTile = None"

text \<open>
  The channel count a colour array is checked against: that of the colour space,
  or the fixed maximum when no colour space is given.
\<close>

definition expected_channels :: "jni_env \<Rightarrow> jobject \<Rightarrow> nat" where
  "expected_channels env jcs =
     (if from_ColorSpace env jcs \<noteq> NULL then fz_colorspace_n env (from_ColorSpace env jcs)
      else FZ_MAX_COLORS env)"

subsection \<open>The backend call of each operation\<close>

text \<open>
  The backend call the specification assigns to each operation (the table of
  section 4.1 and section 6): the backend function of the same primitive, with
  the resolved arguments.  Which colour space beginGroup hands on is the subject
  of C5 and is a parameter here.
\<close>

fun backend_call :: "jni_env \<Rightarrow> jobject \<Rightarrow> device_op \<Rightarrow> ptr \<Rightarrow> fz_call" where
    "backend_call env self Op_close gcs = fz_close_device (from_Device env self)"
  | "backend_call env self (Op_fillPath jpath even_odd jctm jcs jcolor alpha jcp) gcs =
       fz_fill_path (from_Device env self) (from_Path env jpath) even_odd (from_Matrix env jctm)
         (from_ColorSpace env jcs) jcolor alpha (from_ColorParams_safe env jcp)"
  | "backend_call env self (Op_strokePath jpath jstroke jctm jcs jcolor alpha jcp) gcs =
       fz_stroke_path (from_Device env self) (from_Path env jpath) (from_StrokeState env jstroke)
         (from_Matrix env jctm) (from_ColorSpace env jcs) jcolor alpha (from_ColorParams_safe env jcp)"
  | "backend_call env self (Op_clipPath jpath even_odd jctm) gcs =
       fz_clip_path (from_Device env self) (from_Path env jpath) even_odd (from_Matrix env jctm)
         fz_infinite_rect"
  | "backend_call env self (Op_clipStrokePath jpath jstroke jctm) gcs =
       fz_clip_stroke_path (from_Device env self) (from_Path env jpath) (from_StrokeState env jstroke)
         (from_Matrix env jctm) fz_infinite_rect"
  | "backend_call env self (Op_fillText jtext jctm jcs jcolor alpha jcp) gcs =
       fz_fill_text (from_Device env self) (from_Text env jtext) (from_Matrix env jctm)
         (from_ColorSpace env jcs) jcolor alpha (from_ColorParams_safe env jcp)"
  | "backend_call env self (Op_strokeText jtext jstroke jctm jcs jcolor alpha jcp) gcs =
       fz_stroke_text (from_Device env self) (from_Text env jtext) (from_StrokeState env jstroke)
         (from_Matrix env jctm) (from_ColorSpace env jcs) jcolor alpha (from_ColorParams_safe env jcp)"
  | "backend_call env self (Op_clipText jtext jctm) gcs =
       fz_clip_text (from_Device env self) (from_Text env jtext) (from_Matrix env jctm) fz_infinite_rect"
  | "backend_call env self (Op_clipStrokeText jtext jstroke jctm) gcs =
       fz_clip_stroke_text (from_Device env self) (from_Text env jtext) (from_StrokeState env jstroke)
         (from_Matrix env jctm) fz_infinite_rect"
  | "backend_call env self (Op_ignoreText jtext jctm) gcs =
       fz_ignore_text (from_Device env self) (from_Text env jtext) (from_Matrix env jctm)"
  | "backend_call env self (Op_fillShade jshd jctm alpha jcp) gcs =
       fz_fill_shade (from_Device env self) (from_Shade env jshd) (from_Matrix env jctm) alpha
         (from_ColorParams_safe env jcp)"
  | "backend_call env self (Op_fillImage jimg jctm alpha jcp) gcs =
       fz_fill_image (from_Device env self) (from_Image env jimg) (from_Matrix env jctm) alpha
         (from_ColorParams_safe env jcp)"
  | "backend_call env self (Op_fillImageMask jimg jctm jcs jcolor alpha jcp) gcs =
       fz_fill_image_mask (from_Device env self) (from_Image env jimg) (from_Matrix env jctm)
         (from_ColorSpace env jcs) jcolor alpha (from_ColorParams_safe env jcp)"
  | "backend_call env self (Op_clipImageMask jimg jctm) gcs =
       fz_clip_image_mask (from_Device env self) (from_Image env jimg) (from_Matrix env jctm)
         fz_infinite_rect"
  | "backend_call env self Op_popClip gcs = fz_pop_clip (from_Device env self)"
  | "backend_call env self (Op_beginLayer jname) gcs =
       fz_begin_layer (from_Device env self)
         (case GetStringUTFChars env jname of None \<Rightarrow> NullStr | Some s \<Rightarrow> Chars s)"
  | "backend_call env self Op_endLayer gcs = fz_end_layer (from_Device env self)"
  | "backend_call env self (Op_beginMask jrect luminosity jcs jcolor jcp) gcs =
       fz_begin_mask (from_Device env self) (from_Rect env jrect) luminosity (from_ColorSpace env jcs)
         jcolor (from_ColorParams_safe env jcp)"
  | "backend_call env self Op_endMask gcs = fz_end_mask (from_Device env self)"
  | "backend_call env self (Op_beginGroup jrect jcs isolated knockout blendmode alpha) gcs =
       fz_begin_group (from_Device env self) (from_Rect env jrect) gcs isolated knockout blendmode alpha"
  | "backend_call env self Op_endGroup gcs = fz_end_group (from_Device env self)"
  | "backend_call env self (Op_beginTile jarea jview xstep ystep jctm id') gcs =
       fz_begin_tile_id (from_Device env self) (from_Rect env jarea) (from_Rect env jview) xstep ystep
         (from_Matrix env jctm) id'"
  | "backend_call env self Op_endTile gcs = fz_end_tile (from_Device env self)"

text \<open>The JNI calls with which beginLayer reads and releases the name of the layer.\<close>

definition name_read :: "device_op \<Rightarrow> event list" where
  "name_read c = (case c of Op_beginLayer jname \<Rightarrow> [Ev_GetStringUTFChars jname] | _ \<Rightarrow> [])"

definition name_released :: "jni_env \<Rightarrow> device_op \<Rightarrow> event list" where
  "name_released env c =
     (case c of
        Op_beginLayer jname \<Rightarrow>
          [Ev_ReleaseStringUTFChars jname
             (case GetStringUTFChars env jname of None \<Rightarrow> NullStr | Some s \<Rightarrow> Chars s)]
      | _ \<Rightarrow> [])"

text \<open>What an operation returns after its backend call: beginTile the backend's integer, or 0 if the call threw.\<close>

definition backend_result :: "jni_env \<Rightarrow> device_op \<Rightarrow> fz_call \<Rightarrow> jint option" where
  "backend_result env c fc =
     (case c of
        Op_beginTile jarea jview xstep ystep jctm id' \<Rightarrow>
          Some (case backend env fc of Inl e \<Rightarrow> 0 | Inr v \<Rightarrow> v)
      | _ \<Rightarrow> None)"

text \<open>
  An operation is ready to reach its backend call: the device is live, the required
  arguments are present, the colour array has the expected length and, for
  beginLayer, the name is given and can be read.
\<close>

definition ready :: "jni_env \<Rightarrow> jobject \<Rightarrow> device_op \<Rightarrow> bool" where
  "ready env self c \<longleftrightarrow>
     get_context env \<noteq> NULL \<and> from_Device env self \<noteq> NULL \<and>
     find (\<lambda>(n, p). p = NULL) (required_args env c) = None \<and>
     (case color_arg c of
        None \<Rightarrow> True
      | Some (jcs, jcolor) \<Rightarrow> length jcolor = expected_channels env jcs) \<and>
     (case c of
        Op_beginLayer jname \<Rightarrow> jname \<noteq> JNull \<and> GetStringUTFChars env jname \<noteq> None
      | _ \<Rightarrow> True)"

subsection \<open>A concrete device\<close>

text \<open>
  A live device (object 1) with a handle at address 5 whose lock succeeds, a grey
  colour space (object 20, one channel), and a backend that accepts every call.
\<close>

definition env0 :: jni_env where
  "env0 = \<lparr>get_context = 1,
           Device_pointer = (\<lambda>r. 2),
           Path_pointer = (\<lambda>r. 3),
           StrokeState_pointer = (\<lambda>r. 4),
           Text_pointer = (\<lambda>r. 6),
           Shade_pointer = (\<lambda>r. 7),
           Image_pointer = (\<lambda>r. 10),
           ColorSpace_pointer = (\<lambda>r. if r = 20 then 8 else NULL),
           from_Matrix = (\<lambda>j. Matrix 0 0 0 0 0 0),
           from_Rect = (\<lambda>j. Rect 0 0 0 0),
           from_ColorParams_safe = (\<lambda>i. 0),
           fz_colorspace_n = (\<lambda>cs. 1),
           FZ_MAX_COLORS = 32,
           IsInstanceOf_NativeDevice = (\<lambda>j. True),
           GetObjectField_nativeResource = (\<lambda>j. JRef 30),
           GetStringUTFChars = (\<lambda>j. Some ''layer''),
           lock_fn = (\<lambda>f j. 0),
           backend = (\<lambda>c. Inr 0)\<rparr>"

definition info0 :: NativeDeviceInfo where
  "info0 = \<lparr>lock = 100, unlock = 101, object = JNull, pixmap = 9,
            xOffset = 0, yOffset = 0, width = 16, height = 16\<rparr>"

definition w0 :: world where
  "w0 = \<lparr>heap = (\<lambda>a. info0), nativeInfo = (\<lambda>j. 5), trace = []\<rparr>"

text \<open>The same device after its backend has been released, and without a handle.\<close>

definition env_stale :: jni_env where
  "env_stale = env0\<lparr>Device_pointer := (\<lambda>r. NULL)\<rparr>"

definition w_nohandle :: world where
  "w_nohandle = w0\<lparr>nativeInfo := (\<lambda>j. NULL)\<rparr>"

text \<open>The same device with a lock that fails, and with a backend that throws.\<close>

definition env_lockfail :: jni_env where
  "env_lockfail = env0\<lparr>lock_fn := (\<lambda>f j. 1)\<rparr>"

definition env_backendfail :: jni_env where
  "env_backendfail = env0\<lparr>backend := (\<lambda>c. Inl ''backend error'')\<rparr>"

text \<open>The same device with a backend that returns the cache token 42.\<close>

definition env_tile :: jni_env where
  "env_tile = env0\<lparr>backend := (\<lambda>c. Inr 42)\<rparr>"

section \<open>The operations follow the protocol\<close>

lemmas prim_defs = lockNativeDevice_def unlockNativeDevice_def call_lock_def call_unlock_def
  fz_try_always_def call_backend_def jni_rethrow_def
  emit_def Let_def call_ReleaseStringUTFChars_def

lemmas proto_defs = after_protocol_def protocol_events_def rethrown_def has_handle_def lock_rc_def
  protocol_result_def

lemmas res_defs = from_Device_def from_Path_def from_StrokeState_def from_Text_def from_Shade_def
  from_Image_def from_ColorSpace_def from_pointer_def

lemmas example_defs = env0_def w0_def info0_def env_stale_def w_nohandle_def env_lockfail_def
  env_backendfail_def env_tile_def

lemmas op_defs = NativeDevice_close_def NativeDevice_fillPath_def NativeDevice_strokePath_def
  NativeDevice_clipPath_def NativeDevice_clipStrokePath_def NativeDevice_fillText_def
  NativeDevice_strokeText_def NativeDevice_clipText_def NativeDevice_clipStrokeText_def
  NativeDevice_ignoreText_def NativeDevice_fillShade_def NativeDevice_fillImage_def
  NativeDevice_fillImageMask_def NativeDevice_clipImageMask_def NativeDevice_popClip_def
  NativeDevice_beginLayer_def NativeDevice_endLayer_def NativeDevice_beginMask_def
  NativeDevice_endMask_def NativeDevice_beginGroup_def NativeDevice_endGroup_def
  NativeDevice_beginTile_def NativeDevice_endTile_def

text \<open>
  The lines from lockNativeDevice to the end of an operation, which every operation
  repeats, produce the events of the protocol: for the operations that return
  nothing, for beginLayer (which releases the name in its fz_always block) and for
  beginTile (which returns a value).
\<close>

lemma tail_void:
  "(case lockNativeDevice env self w of
      ((info, err), w1) \<Rightarrow>
        if err \<noteq> 0 then w1
        else (case fz_try_always (call_backend env fc) (unlockNativeDevice env info) w1 of
                (Inl e, w2) \<Rightarrow> jni_rethrow e w2
              | (Inr x, w2) \<Rightarrow> w2)) = after_protocol env self w fc []"
  unfolding prim_defs proto_defs
  by (simp split: sum.splits)

lemma tail_release:
  "(case lockNativeDevice env self w of
      ((info, err), w1) \<Rightarrow>
        if err \<noteq> 0 then w1
        else (case fz_try_always (call_backend env fc)
                    (\<lambda>w. unlockNativeDevice env info (call_ReleaseStringUTFChars jname name w)) w1 of
                (Inl e, w2) \<Rightarrow> jni_rethrow e w2
              | (Inr x, w2) \<Rightarrow> w2)) = after_protocol env self w fc [Ev_ReleaseStringUTFChars jname name]"
  unfolding prim_defs proto_defs
  by (simp split: sum.splits)

lemma tail_int:
  "(case lockNativeDevice env self w of
      ((info, err), w1) \<Rightarrow>
        if err \<noteq> 0 then (0, w1)
        else (case fz_try_always (call_backend env fc) (unlockNativeDevice env info) w1 of
                (Inl e, w2) \<Rightarrow> (0, jni_rethrow e w2)
              | (Inr i, w2) \<Rightarrow> (i, w2))) = (protocol_result env self w fc, after_protocol env self w fc [])"
  unfolding prim_defs proto_defs
  by (simp split: sum.splits)

lemma shape_refl: "shape env self w (None, w)" "shape env self w (Some 0, w)"
  by (simp_all add: shape_def)

lemma shape_arg:
  "shape env self w (None, jni_throw_arg m w)"
  "shape env self w (None, emit (Ev_throw (InvalidArgument m)) w)"
  by (simp_all add: shape_def jni_throw_arg_def emit_def)

lemma shape_getstr: "shape env self w (None, emit (Ev_GetStringUTFChars j) w)"
  by (simp add: shape_def emit_def)

lemma shape_proto:
  "rel = [] \<or> (\<exists>j n. rel = [Ev_ReleaseStringUTFChars j n]) \<Longrightarrow>
   r = None \<or> r = Some (protocol_result env self w fc) \<Longrightarrow>
   shape env self w (r, after_protocol env self w fc rel)"
  unfolding shape_def
  apply (rule conjI)
   apply (simp add: after_protocol_def)
  apply (rule exI [of _ "protocol_events env self w fc rel"])
  apply (rule conjI)
   apply (simp add: after_protocol_def)
  apply (intro disjI2)
  apply (rule exI [of _ "[]"], rule exI [of _ fc], rule exI [of _ rel])
  apply simp
  done

lemma protocol_events_emit [simp]:
  "protocol_events env self (emit e w) fc rel = protocol_events env self w fc rel"
  by (simp add: protocol_events_def has_handle_def lock_rc_def emit_def)

lemma shape_proto_pre:
  "shape env self w
     (None, after_protocol env self (emit (Ev_GetStringUTFChars j) w) fc [Ev_ReleaseStringUTFChars j' n])"
  unfolding shape_def
  apply (rule conjI)
   apply (simp add: after_protocol_def emit_def)
  apply (rule exI [of _ "[Ev_GetStringUTFChars j] @ protocol_events env self w fc [Ev_ReleaseStringUTFChars j' n]"])
  apply (rule conjI)
   apply (simp add: after_protocol_def)
   apply (simp add: emit_def)
  apply (intro disjI2)
  apply (rule exI [of _ "[Ev_GetStringUTFChars j]"], rule exI [of _ fc], rule exI [of _ "[Ev_ReleaseStringUTFChars j' n]"])
  apply simp
  done

lemmas shape_rules = shape_refl shape_arg shape_getstr shape_proto shape_proto_pre

lemma dispatch_shape: "shape env self w (dispatch env self c w)"
proof (cases c)
  case (Op_beginLayer jname)
  show ?thesis
    unfolding Op_beginLayer dispatch.simps NativeDevice_beginLayer_def Let_def call_GetStringUTFChars_def
    by (simp add: tail_release shape_rules split: option.splits)
qed (simp_all add: op_defs from_jfloatArray_def Let_def tail_void tail_int shape_rules)

lemmas run_defs = op_defs prim_defs res_defs example_defs jni_throw_arg_def from_jfloatArray_def
  call_GetStringUTFChars_def emitted_def

lemmas fin_defs = NativeDevice_finalize_def Device_finalize_def fz_drop_pixmap_def fz_free_def

lemma lock_fst:
  "fst (lockNativeDevice env self w) =
     (if has_handle env self w
      then (if lock_rc env self w = 0 then (nativeInfo w self, 0) else (NULL, 1))
      else (NULL, 0))"
  by (simp add: lockNativeDevice_def call_lock_def emit_def Let_def has_handle_def lock_rc_def)

lemma emitted_append: "trace w' = trace w @ evs \<Longrightarrow> emitted w w' = evs"
  by (simp add: emitted_def)

text \<open>Every run of every operation has one of the four forms.\<close>

lemma dispatch_runs:
  fixes env self c w
  defines "E \<equiv> emitted w (snd (dispatch env self c w))"
      and "r \<equiv> fst (dispatch env self c w)"
  shows "(E = [] \<and> (r = None \<or> r = Some 0))
        \<or> (\<exists>m. E = [Ev_throw (InvalidArgument m)])
        \<or> (\<exists>j. E = [Ev_GetStringUTFChars j])
        \<or> (\<exists>pre fc rel.
              (pre = [] \<or> (\<exists>j. pre = [Ev_GetStringUTFChars j])) \<and>
              (rel = [] \<or> (\<exists>j n. rel = [Ev_ReleaseStringUTFChars j n])) \<and>
              E = pre @ protocol_events env self w fc rel \<and>
              (r = None \<or> r = Some (protocol_result env self w fc)))"
proof -
  have "shape env self w (dispatch env self c w)" by (rule dispatch_shape)
  then obtain evs where tr: "trace (snd (dispatch env self c w)) = trace w @ evs"
    and cases: "(evs = [] \<and> (r = None \<or> r = Some 0))
        \<or> (\<exists>m. evs = [Ev_throw (InvalidArgument m)])
        \<or> (\<exists>j. evs = [Ev_GetStringUTFChars j])
        \<or> (\<exists>pre fc rel.
              (pre = [] \<or> (\<exists>j. pre = [Ev_GetStringUTFChars j])) \<and>
              (rel = [] \<or> (\<exists>j n. rel = [Ev_ReleaseStringUTFChars j n])) \<and>
              evs = pre @ protocol_events env self w fc rel \<and>
              (r = None \<or> r = Some (protocol_result env self w fc)))"
    unfolding shape_def r_def by blast
  have "E = evs" unfolding E_def using tr by (rule emitted_append)
  with cases show ?thesis by simp
qed

text \<open>A run in which the lock function is called is a run of the protocol.\<close>

lemma protocol_run:
  assumes "Ev_lock a \<in> set E"
      and "(E = [] \<and> Q)
        \<or> (\<exists>m. E = [Ev_throw (InvalidArgument m)])
        \<or> (\<exists>j. E = [Ev_GetStringUTFChars j])
        \<or> (\<exists>pre fc rel. P pre fc rel)"
  shows "\<exists>pre fc rel. P pre fc rel"
  using assms by auto

text \<open>
  Without a handle, an operation that is ready makes its backend call and nothing
  else, and what it throws or returns is what that call throws or returns.
\<close>

lemma has_handle_emit [simp]: "has_handle env self (emit e w) = has_handle env self w"
  by (simp add: has_handle_def emit_def)

lemma after_protocol_no_handle:
  "\<not> has_handle env self w \<Longrightarrow>
   after_protocol env self w fc rel = w\<lparr>trace := trace w @ [Ev_backend fc] @ rel @ rethrown env fc\<rparr>"
  by (simp add: after_protocol_def protocol_events_def)

lemma after_protocol_emit_no_handle:
  "\<not> has_handle env self w \<Longrightarrow>
   after_protocol env self (emit e w) fc rel =
     w\<lparr>trace := trace w @ [e] @ [Ev_backend fc] @ rel @ rethrown env fc\<rparr>"
  using after_protocol_no_handle [of env self "emit e w" fc rel]
  by (simp add: emit_def has_handle_def)

lemma protocol_result_no_handle:
  "\<not> has_handle env self w \<Longrightarrow>
   protocol_result env self w fc = (case backend env fc of Inl e \<Rightarrow> 0 | Inr v \<Rightarrow> v)"
  by (simp add: protocol_result_def)

lemma no_handle_ready_run:
  assumes h: "\<not> has_handle env self w" and r: "ready env self c"
  shows "\<exists>gcs. dispatch env self c w =
           (backend_result env c (backend_call env self c gcs),
            w\<lparr>trace := trace w @ name_read c @ [Ev_backend (backend_call env self c gcs)] @
                        name_released env c @ rethrown env (backend_call env self c gcs)\<rparr>)"
proof (cases c)
  case (Op_beginLayer jname)
  show ?thesis
    using h r unfolding Op_beginLayer
    by (auto simp: ready_def NativeDevice_beginLayer_def Let_def call_GetStringUTFChars_def
          tail_release after_protocol_emit_no_handle name_read_def name_released_def
          backend_result_def)
next
  case (Op_beginTile jarea jview xstep ystep jctm id')
  show ?thesis
    using h r unfolding Op_beginTile
    by (simp add: ready_def NativeDevice_beginTile_def Let_def tail_int after_protocol_no_handle
          protocol_result_no_handle name_read_def name_released_def backend_result_def)
next
  case (Op_beginGroup jrect jcs isolated knockout blendmode alpha)
  show ?thesis
    using h r unfolding Op_beginGroup
    by (intro exI [of _ "from_ColorSpace env self"])
       (simp add: ready_def NativeDevice_beginGroup_def Let_def tail_void after_protocol_no_handle
          name_read_def name_released_def backend_result_def)
qed (use h r in \<open>simp_all add: ready_def op_defs Let_def from_jfloatArray_def expected_channels_def
        tail_void after_protocol_no_handle name_read_def name_released_def backend_result_def
        split: if_splits\<close>)

section \<open>The claims\<close>

subsection \<open>C1: unlock runs once after a successful lock\<close>

text \<open>
  C1.  For every operation on a device that carries a handle: if the operation
  reaches lockNativeDevice and the lock succeeds (lockNativeDevice returns the
  handle and sets \<open>*err\<close> to 0), then the handle's unlock function is called
  exactly once, after the backend call and before the backend's error, if any, is
  rethrown.  The backend is arbitrary, so this covers the backend call that
  returns and the one that throws.
\<close>

theorem unlock_once_after_successful_lock:
  assumes ok: "fst (lockNativeDevice env self w) = (info, 0)" and nn: "info \<noteq> NULL"
      and att: "Ev_lock info \<in> set (emitted w (snd (dispatch env self c w)))"
  shows "count_list (emitted w (snd (dispatch env self c w))) (Ev_unlock info) = 1 \<and>
         (\<exists>pre fc rel.
            emitted w (snd (dispatch env self c w)) =
              pre @ [Ev_lock info, Ev_backend fc] @ rel @ [Ev_unlock info] @
              (case backend env fc of Inl e \<Rightarrow> [Ev_throw (BackendFailure e)] | Inr v \<Rightarrow> []))"
proof -
  let ?E = "emitted w (snd (dispatch env self c w))"
  from ok nn have h: "has_handle env self w" and rc: "lock_rc env self w = 0"
    and info: "info = nativeInfo w self"
    by (auto simp: lock_fst split: if_splits)
  from protocol_run [OF att dispatch_runs [of w env self c]]
  obtain pre fc rel where
      pre: "pre = [] \<or> (\<exists>j. pre = [Ev_GetStringUTFChars j])"
    and rel: "rel = [] \<or> (\<exists>j n. rel = [Ev_ReleaseStringUTFChars j n])"
    and evs: "?E = pre @ protocol_events env self w fc rel"
    by blast
  have pe: "protocol_events env self w fc rel =
      [Ev_lock info, Ev_backend fc] @ rel @ [Ev_unlock info] @ rethrown env fc"
    using h rc info by (simp add: protocol_events_def)
  have c1: "count_list ?E (Ev_unlock info) = 1"
    using pre rel unfolding evs pe rethrown_def
    by (auto split: sum.splits)
  have c2: "?E = pre @ [Ev_lock info, Ev_backend fc] @ rel @ [Ev_unlock info] @
              (case backend env fc of Inl e \<Rightarrow> [Ev_throw (BackendFailure e)] | Inr v \<Rightarrow> [])"
    unfolding evs pe rethrown_def by simp
  show ?thesis using c1 c2 by blast
qed

text \<open>fillPath on the concrete device, with a backend that throws.\<close>

theorem unlock_once_after_successful_lock_witness:
  "fst (lockNativeDevice env_backendfail (JRef 1) w0) = (5, 0) \<and> (5 :: ptr) \<noteq> NULL \<and>
   Ev_lock 5 \<in> set (emitted w0 (snd (dispatch env_backendfail (JRef 1)
                      (Op_fillPath (JRef 10) False JNull (JRef 20) [5] 0 0) w0))) \<and>
   count_list (emitted w0 (snd (dispatch env_backendfail (JRef 1)
                      (Op_fillPath (JRef 10) False JNull (JRef 20) [5] 0 0) w0))) (Ev_unlock 5) = 1"
proof -
  have h1: "fst (lockNativeDevice env_backendfail (JRef 1) w0) = (5, 0)"
    by (simp add: run_defs)
  have h2: "(5 :: ptr) \<noteq> NULL" by simp
  have h3: "Ev_lock 5 \<in> set (emitted w0 (snd (dispatch env_backendfail (JRef 1)
                      (Op_fillPath (JRef 10) False JNull (JRef 20) [5] 0 0) w0)))"
    by (simp add: run_defs)
  from unlock_once_after_successful_lock [OF h1 h2 h3] h1 h2 h3 show ?thesis by blast
qed

subsection \<open>C4: a failing lock stops the operation\<close>

text \<open>
  C4.  For every operation: if the operation reaches lockNativeDevice and the
  handle's lock function fails (\<open>*err\<close> is set), then the run ends with the call
  of the lock function and the LockFailure it signals; no backend function and no
  unlock function is called, and beginTile returns 0.
\<close>

theorem lock_failure_aborts:
  assumes fail: "snd (fst (lockNativeDevice env self w)) \<noteq> 0"
      and att: "Ev_lock (nativeInfo w self) \<in> set (emitted w (snd (dispatch env self c w)))"
  shows "(\<exists>pre. emitted w (snd (dispatch env self c w)) =
                  pre @ [Ev_lock (nativeInfo w self), Ev_throw LockFailure]) \<and>
         (\<forall>fc. Ev_backend fc \<notin> set (emitted w (snd (dispatch env self c w)))) \<and>
         (\<forall>a. Ev_unlock a \<notin> set (emitted w (snd (dispatch env self c w)))) \<and>
         (fst (dispatch env self c w) = None \<or> fst (dispatch env self c w) = Some 0)"
proof -
  let ?E = "emitted w (snd (dispatch env self c w))"
  let ?r = "fst (dispatch env self c w)"
  from fail have h: "has_handle env self w" and rc: "lock_rc env self w \<noteq> 0"
    by (auto simp: lock_fst split: if_splits)
  from protocol_run [OF att dispatch_runs [of w env self c]]
  obtain pre fc rel where
      pre: "pre = [] \<or> (\<exists>j. pre = [Ev_GetStringUTFChars j])"
    and evs: "?E = pre @ protocol_events env self w fc rel"
    and res: "?r = None \<or> ?r = Some (protocol_result env self w fc)"
    by blast
  have pe: "protocol_events env self w fc rel = [Ev_lock (nativeInfo w self), Ev_throw LockFailure]"
    using h rc by (simp add: protocol_events_def)
  have pr: "protocol_result env self w fc = 0"
    using h rc by (simp add: protocol_result_def)
  have a: "\<exists>pre. ?E = pre @ [Ev_lock (nativeInfo w self), Ev_throw LockFailure]"
    unfolding evs pe by blast
  have b: "\<forall>fc. Ev_backend fc \<notin> set ?E"
    using pre unfolding evs pe by auto
  have c: "\<forall>a. Ev_unlock a \<notin> set ?E"
    using pre unfolding evs pe by auto
  have d: "?r = None \<or> ?r = Some 0"
    using res pr by simp
  show ?thesis using a b c d by blast
qed

text \<open>strokePath on the concrete device, with a lock that fails.\<close>

theorem lock_failure_aborts_witness:
  "snd (fst (lockNativeDevice env_lockfail (JRef 1) w0)) \<noteq> 0 \<and>
   Ev_lock (nativeInfo w0 (JRef 1)) \<in> set (emitted w0 (snd (dispatch env_lockfail (JRef 1)
       (Op_strokePath (JRef 10) (JRef 11) JNull (JRef 20) [5] 0 0) w0))) \<and>
   Ev_unlock 5 \<notin> set (emitted w0 (snd (dispatch env_lockfail (JRef 1)
       (Op_strokePath (JRef 10) (JRef 11) JNull (JRef 20) [5] 0 0) w0)))"
proof -
  have h1: "snd (fst (lockNativeDevice env_lockfail (JRef 1) w0)) \<noteq> 0"
    by (simp add: run_defs)
  have h2: "Ev_lock (nativeInfo w0 (JRef 1)) \<in> set (emitted w0 (snd (dispatch env_lockfail (JRef 1)
       (Op_strokePath (JRef 10) (JRef 11) JNull (JRef 20) [5] 0 0) w0)))"
    by (simp add: run_defs)
  from lock_failure_aborts [OF h1 h2] h1 h2 show ?thesis by blast
qed

subsection \<open>C7: a device without a handle is not locked\<close>

text \<open>
  C7, as amended.  For a device with no handle (the object is not a NativeDevice,
  or its \<open>nativeInfo\<close> field is null): lockNativeDevice returns \<open>NULL\<close> with
  \<open>*err\<close> = 0 and does nothing else, and no operation calls a lock or an unlock
  function or signals LockFailure.  If moreover the operation is ready (live
  device, required arguments present, colour array of the expected length, for
  beginLayer a name that can be read), it calls its backend function exactly once
  and its result is that call's alone: the events are the backend call (between
  the reading and the release of the name, for beginLayer) followed by the
  backend's error if it threw one and by nothing otherwise, and beginTile returns
  the backend's integer, or 0 if the call threw.  In any run that calls the
  backend, the outcome is the backend's.
\<close>

theorem no_handle_no_locking:
  assumes nh: "\<not> IsInstanceOf_NativeDevice env self \<or> nativeInfo w self = NULL"
  shows "lockNativeDevice env self w = ((NULL, 0), w) \<and>
         (\<forall>a. Ev_lock a \<notin> set (emitted w (snd (dispatch env self c w))) \<and>
              Ev_unlock a \<notin> set (emitted w (snd (dispatch env self c w)))) \<and>
         Ev_throw LockFailure \<notin> set (emitted w (snd (dispatch env self c w))) \<and>
         (ready env self c \<longrightarrow>
            (\<exists>gcs. emitted w (snd (dispatch env self c w)) =
                     name_read c @ [Ev_backend (backend_call env self c gcs)] @ name_released env c @
                     (case backend env (backend_call env self c gcs) of
                        Inl e \<Rightarrow> [Ev_throw (BackendFailure e)]
                      | Inr v \<Rightarrow> []) \<and>
                   fst (dispatch env self c w) =
                     backend_result env c (backend_call env self c gcs))) \<and>
         (\<forall>fc. Ev_backend fc \<in> set (emitted w (snd (dispatch env self c w))) \<longrightarrow>
            (case backend env fc of
               Inl e \<Rightarrow> last (emitted w (snd (dispatch env self c w))) = Ev_throw (BackendFailure e) \<and>
                         (fst (dispatch env self c w) = None \<or> fst (dispatch env self c w) = Some 0)
             | Inr v \<Rightarrow> (\<forall>x. Ev_throw x \<notin> set (emitted w (snd (dispatch env self c w)))) \<and>
                         (fst (dispatch env self c w) = None \<or> fst (dispatch env self c w) = Some v)))"
proof -
  let ?E = "emitted w (snd (dispatch env self c w))"
  let ?r = "fst (dispatch env self c w)"
  from nh have h: "\<not> has_handle env self w" by (auto simp: has_handle_def)
  have l: "lockNativeDevice env self w = ((NULL, 0), w)"
    using nh by (auto simp: lockNativeDevice_def Let_def)
  have pe: "\<And>fc rel. protocol_events env self w fc rel = [Ev_backend fc] @ rel @ rethrown env fc"
    using h by (simp add: protocol_events_def)
  have pr: "\<And>fc. protocol_result env self w fc = (case backend env fc of Inl e \<Rightarrow> 0 | Inr v \<Rightarrow> v)"
    using h by (simp add: protocol_result_def)
  note runs = dispatch_runs [of w env self c, unfolded pe pr]
  have a: "\<forall>a. Ev_lock a \<notin> set ?E \<and> Ev_unlock a \<notin> set ?E"
    using runs by (auto simp: rethrown_def split: sum.splits)
  have b: "Ev_throw LockFailure \<notin> set ?E"
    using runs by (auto simp: rethrown_def split: sum.splits)
  have e: "\<exists>gcs. ?E = name_read c @ [Ev_backend (backend_call env self c gcs)] @ name_released env c @
                     (case backend env (backend_call env self c gcs) of
                        Inl e \<Rightarrow> [Ev_throw (BackendFailure e)]
                      | Inr v \<Rightarrow> []) \<and>
                 ?r = backend_result env c (backend_call env self c gcs)"
    if rdy: "ready env self c"
  proof -
    from no_handle_ready_run [OF h rdy] obtain gcs where
      d: "dispatch env self c w =
           (backend_result env c (backend_call env self c gcs),
            w\<lparr>trace := trace w @ name_read c @ [Ev_backend (backend_call env self c gcs)] @
                        name_released env c @ rethrown env (backend_call env self c gcs)\<rparr>)" ..
    have "?E = name_read c @ [Ev_backend (backend_call env self c gcs)] @ name_released env c @
                 rethrown env (backend_call env self c gcs)"
      unfolding d by (simp add: emitted_def)
    moreover have "?r = backend_result env c (backend_call env self c gcs)"
      unfolding d by simp
    ultimately show ?thesis unfolding rethrown_def by blast
  qed
  have d: "(case backend env fc of
               Inl e \<Rightarrow> last ?E = Ev_throw (BackendFailure e) \<and> (?r = None \<or> ?r = Some 0)
             | Inr v \<Rightarrow> (\<forall>x. Ev_throw x \<notin> set ?E) \<and> (?r = None \<or> ?r = Some v))"
    if "Ev_backend fc \<in> set ?E" for fc
    using runs that by (auto simp: rethrown_def split: sum.splits)
  show ?thesis using l a b e d by blast
qed

text \<open>
  beginTile on the concrete device without its handle: the only event is the
  backend call, and the token is the backend's.
\<close>

theorem no_handle_no_locking_witness:
  "nativeInfo w_nohandle (JRef 1) = NULL \<and>
   ready env_tile (JRef 1) (Op_beginTile JNull JNull 0 0 JNull 7) \<and>
   Ev_lock 5 \<notin> set (emitted w_nohandle (snd (dispatch env_tile (JRef 1)
       (Op_beginTile JNull JNull 0 0 JNull 7) w_nohandle))) \<and>
   Ev_unlock 5 \<notin> set (emitted w_nohandle (snd (dispatch env_tile (JRef 1)
       (Op_beginTile JNull JNull 0 0 JNull 7) w_nohandle))) \<and>
   emitted w_nohandle (snd (dispatch env_tile (JRef 1)
       (Op_beginTile JNull JNull 0 0 JNull 7) w_nohandle)) =
     [Ev_backend (fz_begin_tile_id 2 (Rect 0 0 0 0) (Rect 0 0 0 0) 0 0 (Matrix 0 0 0 0 0 0) 7)] \<and>
   fst (dispatch env_tile (JRef 1) (Op_beginTile JNull JNull 0 0 JNull 7) w_nohandle) = Some 42"
proof -
  have h: "\<not> IsInstanceOf_NativeDevice env_tile (JRef 1) \<or> nativeInfo w_nohandle (JRef 1) = NULL"
    by (simp add: example_defs)
  have n: "nativeInfo w_nohandle (JRef 1) = NULL"
    by (simp add: example_defs)
  have r: "ready env_tile (JRef 1) (Op_beginTile JNull JNull 0 0 JNull 7)"
    by (simp add: ready_def example_defs res_defs)
  note t = no_handle_no_locking [OF h, of "Op_beginTile JNull JNull 0 0 JNull 7"]
  from t have a: "Ev_lock 5 \<notin> set (emitted w_nohandle (snd (dispatch env_tile (JRef 1)
       (Op_beginTile JNull JNull 0 0 JNull 7) w_nohandle)))"
    and b: "Ev_unlock 5 \<notin> set (emitted w_nohandle (snd (dispatch env_tile (JRef 1)
       (Op_beginTile JNull JNull 0 0 JNull 7) w_nohandle)))"
    by blast+
  from t r obtain gcs where
    "emitted w_nohandle (snd (dispatch env_tile (JRef 1) (Op_beginTile JNull JNull 0 0 JNull 7) w_nohandle)) =
       name_read (Op_beginTile JNull JNull 0 0 JNull 7) @
       [Ev_backend (backend_call env_tile (JRef 1) (Op_beginTile JNull JNull 0 0 JNull 7) gcs)] @
       name_released env_tile (Op_beginTile JNull JNull 0 0 JNull 7) @
       (case backend env_tile (backend_call env_tile (JRef 1) (Op_beginTile JNull JNull 0 0 JNull 7) gcs) of
          Inl e \<Rightarrow> [Ev_throw (BackendFailure e)]
        | Inr v \<Rightarrow> [])"
    and "fst (dispatch env_tile (JRef 1) (Op_beginTile JNull JNull 0 0 JNull 7) w_nohandle) =
       backend_result env_tile (Op_beginTile JNull JNull 0 0 JNull 7)
         (backend_call env_tile (JRef 1) (Op_beginTile JNull JNull 0 0 JNull 7) gcs)"
    by blast
  then have c: "emitted w_nohandle (snd (dispatch env_tile (JRef 1)
       (Op_beginTile JNull JNull 0 0 JNull 7) w_nohandle)) =
     [Ev_backend (fz_begin_tile_id 2 (Rect 0 0 0 0) (Rect 0 0 0 0) 0 0 (Matrix 0 0 0 0 0 0) 7)]"
    and d: "fst (dispatch env_tile (JRef 1) (Op_beginTile JNull JNull 0 0 JNull 7) w_nohandle) = Some 42"
    by (simp_all add: name_read_def name_released_def backend_result_def example_defs res_defs)
  from n r a b c d show ?thesis by blast
qed

text \<open>
  C7 as stated does not hold where the operation is not ready: on the concrete
  device without its handle, whose backend accepts every call, fillPath with a
  null path ends in InvalidArgument without a backend call, and after the backend
  was released it does nothing at all.
\<close>

theorem no_handle_result_not_backends_counterexample:
  "nativeInfo w_nohandle (JRef 1) = NULL \<and>
   emitted w_nohandle (snd (dispatch env0 (JRef 1)
       (Op_fillPath JNull False JNull (JRef 20) [5] 0 0) w_nohandle)) =
     [Ev_throw (InvalidArgument ''path must not be null'')] \<and>
   emitted w_nohandle (snd (dispatch env_stale (JRef 1)
       (Op_fillPath (JRef 10) False JNull (JRef 20) [5] 0 0) w_nohandle)) = []"
  by (simp add: run_defs)

subsection \<open>C8: a stale device does nothing\<close>

text \<open>
  C8.  For every operation: if the context or the backend device pointer of the
  device is absent, the call returns at once.  The world is unchanged (nothing is
  thrown, no lock function and no backend function is called), and beginTile
  returns 0.
\<close>

theorem stale_device_is_noop:
  assumes "get_context env = NULL \<or> from_Device env self = NULL"
  shows "snd (dispatch env self c w) = w \<and>
         (fst (dispatch env self c w) = None \<or> fst (dispatch env self c w) = Some 0)"
  using assms by (cases c) (auto simp: op_defs Let_def)

text \<open>fillPath with a null path on the concrete device after its backend was released.\<close>

theorem stale_device_is_noop_witness:
  "(get_context env_stale = NULL \<or> from_Device env_stale (JRef 1) = NULL) \<and>
   snd (dispatch env_stale (JRef 1) (Op_fillPath JNull False JNull JNull [] 0 0) w0) = w0"
proof -
  have h: "get_context env_stale = NULL \<or> from_Device env_stale (JRef 1) = NULL"
    by (simp add: example_defs res_defs)
  from stale_device_is_noop [OF h] h show ?thesis by blast
qed

subsection \<open>C10: what beginTile returns\<close>

text \<open>
  C10.  NativeDevice_beginTile returns 0 when the device is stale, when
  lockNativeDevice reports an error and when the backend call throws; it returns
  the integer of fz_begin_tile_id only when that call returns.
\<close>

theorem beginTile_result:
  "fst (NativeDevice_beginTile env self jarea jview xstep ystep jctm id' w) =
     (if get_context env = NULL \<or> from_Device env self = NULL then 0
      else if snd (fst (lockNativeDevice env self w)) \<noteq> 0 then 0
      else case backend env (fz_begin_tile_id (from_Device env self) (from_Rect env jarea)
                  (from_Rect env jview) xstep ystep (from_Matrix env jctm) id') of
             Inl e \<Rightarrow> 0
           | Inr i \<Rightarrow> i)"
  unfolding NativeDevice_beginTile_def Let_def
  by (simp add: tail_int lock_fst protocol_result_def split: sum.splits)

text \<open>On the concrete device the backend's token 42 comes back.\<close>

theorem beginTile_result_witness:
  "fst (NativeDevice_beginTile env_tile (JRef 1) JNull JNull 0 0 JNull 7 w0) = 42"
proof -
  have "fst (NativeDevice_beginTile env_tile (JRef 1) JNull JNull 0 0 JNull 7 w0) =
     (if get_context env_tile = NULL \<or> from_Device env_tile (JRef 1) = NULL then 0
      else if snd (fst (lockNativeDevice env_tile (JRef 1) w0)) \<noteq> 0 then 0
      else case backend env_tile (fz_begin_tile_id (from_Device env_tile (JRef 1)) (from_Rect env_tile JNull)
                  (from_Rect env_tile JNull) 0 0 (from_Matrix env_tile JNull) 7) of
             Inl e \<Rightarrow> 0
           | Inr i \<Rightarrow> i)"
    by (rule beginTile_result)
  also have "\<dots> = 42"
    by (simp add: example_defs res_defs lockNativeDevice_def call_lock_def emit_def Let_def)
  finally show ?thesis .
qed

subsection \<open>C2: a missing required argument\<close>

text \<open>
  C2, as amended.  On a live device (context and backend device pointer present):
  if a required resource argument of an operation resolves to \<open>NULL\<close>, the
  operation throws InvalidArgument with the message naming the first such
  argument in the order they are passed, and does nothing else: the only event
  is the throw, so no lock function and no backend function is called.
\<close>

theorem missing_argument_rejected_on_live_device:
  assumes live: "get_context env \<noteq> NULL" "from_Device env self \<noteq> NULL"
      and missing: "find (\<lambda>(n, p). p = NULL) (required_args env c) = Some (n, p)"
  shows "dispatch env self c w =
           (None, emit (Ev_throw (InvalidArgument (n @ '' must not be null''))) w) \<and>
         emitted w (snd (dispatch env self c w)) =
           [Ev_throw (InvalidArgument (n @ '' must not be null''))]"
proof -
  have d: "dispatch env self c w =
           (None, emit (Ev_throw (InvalidArgument (n @ '' must not be null''))) w)"
    using live missing
    by (cases c) (auto simp: op_defs Let_def jni_throw_arg_def split: if_splits)
  show ?thesis unfolding d by (simp add: emitted_def emit_def)
qed

text \<open>strokePath with a null path and a null stroke on the concrete device: the path is named.\<close>

theorem missing_argument_rejected_on_live_device_witness:
  "get_context env0 \<noteq> NULL \<and> from_Device env0 (JRef 1) \<noteq> NULL \<and>
   find (\<lambda>(n, p). p = NULL) (required_args env0 (Op_strokePath JNull JNull JNull (JRef 20) [5] 0 0))
     = Some (''path'', NULL) \<and>
   emitted w0 (snd (dispatch env0 (JRef 1) (Op_strokePath JNull JNull JNull (JRef 20) [5] 0 0) w0)) =
     [Ev_throw (InvalidArgument ''path must not be null'')]"
proof -
  have h1: "get_context env0 \<noteq> NULL" by (simp add: example_defs)
  have h2: "from_Device env0 (JRef 1) \<noteq> NULL" by (simp add: example_defs res_defs)
  have h3: "find (\<lambda>(n, p). p = NULL) (required_args env0 (Op_strokePath JNull JNull JNull (JRef 20) [5] 0 0))
     = Some (''path'', NULL)" by (simp add: res_defs)
  have "emitted w0 (snd (dispatch env0 (JRef 1) (Op_strokePath JNull JNull JNull (JRef 20) [5] 0 0) w0)) =
     [Ev_throw (InvalidArgument (''path'' @ '' must not be null''))]"
    by (rule missing_argument_rejected_on_live_device [OF h1 h2 h3, THEN conjunct2])
  then have e: "emitted w0 (snd (dispatch env0 (JRef 1) (Op_strokePath JNull JNull JNull (JRef 20) [5] 0 0) w0)) =
     [Ev_throw (InvalidArgument ''path must not be null'')]"
    by simp
  from h1 h2 h3 e show ?thesis by blast
qed

text \<open>
  C2 as stated does not hold on a stale device: fillPath with a null path on the
  concrete device after its backend was released throws nothing.
\<close>

theorem missing_argument_on_stale_device_counterexample:
  "from_Path env_stale JNull = NULL \<and>
   emitted w0 (snd (dispatch env_stale (JRef 1) (Op_fillPath JNull False JNull (JRef 20) [5] 0 0) w0)) = []"
  by (simp add: run_defs)

subsection \<open>C3: a colour array of the wrong length\<close>

text \<open>
  C3, as amended.  On a live device: if the colour array of an operation that
  takes one has a length different from the channel count of the colour space
  given (or from \<open>FZ_MAX_COLORS\<close> when none is given), the operation throws
  InvalidArgument and does nothing else: the only event is the throw, so no lock
  function and no backend function is called.
\<close>

theorem color_length_mismatch_rejected_on_live_device:
  assumes live: "get_context env \<noteq> NULL" "from_Device env self \<noteq> NULL"
      and col: "color_arg c = Some (jcs, jcolor)"
      and mismatch: "length jcolor \<noteq> expected_channels env jcs"
  shows "\<exists>m. snd (dispatch env self c w) = emit (Ev_throw (InvalidArgument m)) w \<and>
             emitted w (snd (dispatch env self c w)) = [Ev_throw (InvalidArgument m)]"
proof -
  have "\<exists>m. snd (dispatch env self c w) = emit (Ev_throw (InvalidArgument m)) w"
    using live col mismatch
    by (cases c) (auto simp: op_defs Let_def jni_throw_arg_def from_jfloatArray_def expected_channels_def
                       split: if_splits)
  then obtain m where d: "snd (dispatch env self c w) = emit (Ev_throw (InvalidArgument m)) w" ..
  have "emitted w (snd (dispatch env self c w)) = [Ev_throw (InvalidArgument m)]"
    unfolding d by (simp add: emitted_def emit_def)
  with d show ?thesis by blast
qed

text \<open>fillPath with three channels against the one-channel colour space.\<close>

theorem color_length_mismatch_rejected_on_live_device_witness:
  "get_context env0 \<noteq> NULL \<and> from_Device env0 (JRef 1) \<noteq> NULL \<and>
   length [1, 2, 3 :: jfloat] \<noteq> expected_channels env0 (JRef 20) \<and>
   (\<forall>fc. Ev_backend fc \<notin> set (emitted w0 (snd (dispatch env0 (JRef 1)
        (Op_fillPath (JRef 10) False JNull (JRef 20) [1, 2, 3] 0 0) w0))))"
proof -
  have h1: "get_context env0 \<noteq> NULL" by (simp add: example_defs)
  have h2: "from_Device env0 (JRef 1) \<noteq> NULL" by (simp add: example_defs res_defs)
  have h3: "color_arg (Op_fillPath (JRef 10) False JNull (JRef 20) [1, 2, 3] 0 0) = Some (JRef 20, [1, 2, 3])"
    by simp
  have h4: "length [1, 2, 3 :: jfloat] \<noteq> expected_channels env0 (JRef 20)"
    by (simp add: expected_channels_def example_defs res_defs)
  from color_length_mismatch_rejected_on_live_device [OF h1 h2 h3 h4, of w0] h1 h2 h4
  show ?thesis by auto
qed

text \<open>
  C3 as stated does not hold on a stale device: the same call on the concrete
  device after its backend was released throws nothing.
\<close>

theorem color_length_mismatch_on_stale_device_counterexample:
  "length [1, 2, 3 :: jfloat] \<noteq> expected_channels env_stale (JRef 20) \<and>
   emitted w0 (snd (dispatch env_stale (JRef 1)
        (Op_fillPath (JRef 10) False JNull (JRef 20) [1, 2, 3] 0 0) w0)) = []"
  by (simp add: run_defs expected_channels_def)

subsection \<open>C5: the colour space of beginGroup\<close>

text \<open>
  C5.  The claim is that NativeDevice_beginGroup hands the colour space of its
  argument \<open>jcs\<close> to fz_begin_group.  Line 569 resolves \<open>self\<close> instead.  On the
  concrete device, called with the grey colour space (object 20, native pointer
  8), the backend receives what the device object resolves to, here \<open>NULL\<close>.
\<close>

theorem beginGroup_colorspace_from_self:
  "from_ColorSpace env0 (JRef 20) = 8 \<and>
   from_ColorSpace env0 (JRef 1) = NULL \<and>
   emitted w0 (NativeDevice_beginGroup env0 (JRef 1) JNull (JRef 20) True False 0 0 w0) =
     [Ev_lock 5, Ev_backend (fz_begin_group 2 (Rect 0 0 0 0) NULL True False 0 0), Ev_unlock 5]"
  by (simp add: run_defs)

subsection \<open>C6: finalizing twice\<close>

text \<open>
  C6, as amended.  One run of the finalizer releases the pixmap and the storage
  of the handle exactly once each, after the finalizer of the superclass, when
  the context is present and the \<open>nativeInfo\<close> field is not null; it releases
  nothing when the context is absent or the field is null.  It leaves the field
  and the heap as they are.
\<close>

theorem finalize_releases_once_per_run:
  "emitted w (NativeDevice_finalize env self w) =
     (if get_context env = NULL then []
      else Ev_Device_finalize self #
           (if nativeInfo w self \<noteq> NULL
            then [Ev_fz_drop_pixmap (pixmap (heap w (nativeInfo w self))), Ev_fz_free (nativeInfo w self)]
            else [])) \<and>
   nativeInfo (NativeDevice_finalize env self w) = nativeInfo w \<and>
   heap (NativeDevice_finalize env self w) = heap w"
  by (simp add: fin_defs emit_def emitted_def Let_def)

text \<open>The concrete device with its handle, and without it.\<close>

theorem finalize_releases_once_per_run_witness:
  "emitted w0 (NativeDevice_finalize env0 (JRef 1) w0) =
     [Ev_Device_finalize (JRef 1), Ev_fz_drop_pixmap 9, Ev_fz_free 5] \<and>
   emitted w_nohandle (NativeDevice_finalize env0 (JRef 1) w_nohandle) = [Ev_Device_finalize (JRef 1)]"
  using finalize_releases_once_per_run [of w0 env0 "JRef 1"]
        finalize_releases_once_per_run [of w_nohandle env0 "JRef 1"]
  by (simp add: example_defs)

text \<open>
  C6 as stated does not hold: a second run of the finalizer on the concrete
  device drops pixmap 9 and frees address 5 again.
\<close>

theorem finalize_twice_counterexample:
  "emitted (NativeDevice_finalize env0 (JRef 1) w0)
           (NativeDevice_finalize env0 (JRef 1) (NativeDevice_finalize env0 (JRef 1) w0)) =
     [Ev_Device_finalize (JRef 1), Ev_fz_drop_pixmap 9, Ev_fz_free 5]"
  by (simp add: run_defs fin_defs)

subsection \<open>C9: beginLayer without a name\<close>

text \<open>
  C9.  The claim is that NativeDevice_beginLayer with a null name calls the
  backend with no name and is well defined on every path.  The local \<open>name\<close> of
  line 470 has no initialiser and is assigned only when \<open>jname\<close> is not null, so
  on the concrete device fz_begin_layer receives an indeterminate pointer, and
  the fz_always block passes the null \<open>jname\<close> and that pointer to
  ReleaseStringUTFChars.
\<close>

theorem beginLayer_null_name_indeterminate:
  "emitted w0 (NativeDevice_beginLayer env0 (JRef 1) JNull w0) =
     [Ev_lock 5, Ev_backend (fz_begin_layer 2 Indeterminate),
      Ev_ReleaseStringUTFChars JNull Indeterminate, Ev_unlock 5]"
  by (simp add: run_defs)

end
